theory Spec2Isabelle
  imports Main "HOL-Library.AList" "HOL-Library.Word"
begin

section \<open>The path module used by the local driver\<close>

text \<open>
  The local driver (lib/drivers/local.js) calls \<^verbatim>\<open>path.resolve\<close>, \<^verbatim>\<open>path.join\<close>,
  \<^verbatim>\<open>path.dirname\<close>, \<^verbatim>\<open>path.basename\<close> and \<^verbatim>\<open>path.sep\<close> of the runtime's path module,
  in its POSIX flavour, where \<^verbatim>\<open>path.sep\<close> is the slash. These are functions of
  strings only; they never look at the file system. A path is split at the separator,
  its segments are pushed on a stack (an empty segment and \<^verbatim>\<open>.\<close> are skipped, \<^verbatim>\<open>..\<close>
  pops), and the stack is joined again.
\<close>

text \<open>\<^verbatim>\<open>String.prototype.split('/')\<close>: the empty string gives one empty piece.\<close>

fun split_sep :: "string \<Rightarrow> string list" where
  "split_sep [] = [[]]"
| "split_sep (c # cs) =
     (if c = CHR ''/'' then [] # split_sep cs
      else (case split_sep cs of [] \<Rightarrow> [[c]] | x # xs \<Rightarrow> (c # x) # xs))"

text \<open>\<^verbatim>\<open>Array.prototype.join('/')\<close>.\<close>

fun join_sep :: "string list \<Rightarrow> string" where
  "join_sep [] = []"
| "join_sep [x] = x"
| "join_sep (x # y # ys) = x @ ''/'' @ join_sep (y # ys)"

definition isAbsolute :: "string \<Rightarrow> bool" where
  "isAbsolute p = (case p of [] \<Rightarrow> False | c # _ \<Rightarrow> c = CHR ''/'')"

definition trailingSeparator :: "string \<Rightarrow> bool" where
  "trailingSeparator p = (p \<noteq> [] \<and> last p = CHR ''/'')"

text \<open>
  One step of \<^verbatim>\<open>normalizeString\<close>: \<open>res\<close> is the stack of segments kept so far, the
  last one first.
\<close>

fun normalize_step :: "bool \<Rightarrow> string list \<Rightarrow> string \<Rightarrow> string list" where
  "normalize_step allowAboveRoot res seg =
     (if seg = [] \<or> seg = ''.'' then res
      else if seg = ''..'' then
        (case res of
           [] \<Rightarrow> (if allowAboveRoot then [''..''] else [])
         | seg0 # rest \<Rightarrow>
             (if seg0 = ''..'' then (if allowAboveRoot then ''..'' # res else res)
              else rest))
      else seg # res)"

definition normalizeSegments :: "bool \<Rightarrow> string list \<Rightarrow> string list" where
  "normalizeSegments allowAboveRoot segs = rev (foldl (normalize_step allowAboveRoot) [] segs)"

definition normalizeString :: "string \<Rightarrow> bool \<Rightarrow> string" where
  "normalizeString p allowAboveRoot = join_sep (normalizeSegments allowAboveRoot (split_sep p))"

definition normalize :: "string \<Rightarrow> string" where
  "normalize p =
     (if p = [] then ''.''
      else
        let path = normalizeString p (\<not> isAbsolute p) in
        if path = [] then
          (if isAbsolute p then ''/'' else if trailingSeparator p then ''./'' else ''.'')
        else
          let path' = (if trailingSeparator p then path @ ''/'' else path) in
          if isAbsolute p then ''/'' @ path' else path')"

text \<open>\<^verbatim>\<open>path.join(...args)\<close>: the non-empty arguments, joined and normalised.\<close>

definition join :: "string list \<Rightarrow> string" where
  "join args =
     (case filter (\<lambda>a. a \<noteq> []) args of
        [] \<Rightarrow> ''.''
      | a # as \<Rightarrow> normalize (join_sep (a # as)))"

text \<open>
  \<^verbatim>\<open>path.dirname\<close>: trailing separators after the first character are dropped, then
  everything from the last separator (at index 1 or later) on.
\<close>

definition dirname :: "string \<Rightarrow> string" where
  "dirname p =
     (case p of
        [] \<Rightarrow> ''.''
      | c # cs \<Rightarrow>
          let t = dropWhile (\<lambda>x. x = CHR ''/'') (rev cs) in
          if CHR ''/'' \<notin> set t then (if c = CHR ''/'' then ''/'' else ''.'')
          else
            let d = c # rev (tl (dropWhile (\<lambda>x. x \<noteq> CHR ''/'') t)) in
            if c = CHR ''/'' \<and> length d = 1 then ''//'' else d)"

text \<open>\<^verbatim>\<open>path.basename\<close> without an extension: the last segment that is not empty.\<close>

definition basename :: "string \<Rightarrow> string" where
  "basename p =
     rev (takeWhile (\<lambda>x. x \<noteq> CHR ''/'') (dropWhile (\<lambda>x. x = CHR ''/'') (rev p)))"

text \<open>
  \<^verbatim>\<open>path.resolve(p)\<close> with one argument. Its loop takes \<open>p\<close> and then, unless \<open>p\<close> is
  absolute, the working directory \<open>wd\<close> of the process in front of it; an empty
  string is passed over. \<open>resolve_loop\<close> gives \<^verbatim>\<open>resolvedPath\<close> and
  \<^verbatim>\<open>resolvedAbsolute\<close> after the loop, \<open>resolveSegments\<close> the segments of the
  normalised path. No file is looked at.
\<close>

definition resolve_loop :: "string \<Rightarrow> string \<Rightarrow> string \<times> bool" where
  "resolve_loop wd p =
     (let (resolvedPath, resolvedAbsolute) =
        (if p = [] then ([], False) else (p @ ''/'', isAbsolute p))
      in if resolvedAbsolute \<or> wd = [] then (resolvedPath, resolvedAbsolute)
         else (wd @ ''/'' @ resolvedPath, isAbsolute wd))"

definition resolveSegments :: "string \<Rightarrow> string \<Rightarrow> string list" where
  "resolveSegments wd p =
     (let (resolvedPath, resolvedAbsolute) = resolve_loop wd p
      in normalizeSegments (\<not> resolvedAbsolute) (split_sep resolvedPath))"

definition resolve :: "string \<Rightarrow> string \<Rightarrow> string" where
  "resolve wd p =
     (let (resolvedPath, resolvedAbsolute) = resolve_loop wd p;
          normalized = join_sep (resolveSegments wd p)
      in if resolvedAbsolute then ''/'' @ normalized
         else if normalized \<noteq> [] then normalized else ''.'')"

text \<open>
  An ordinary name of a directory entry: not empty, not \<^verbatim>\<open>.\<close> or \<^verbatim>\<open>..\<close>, and without a
  separator. Normalisation keeps such names; between them it may keep \<^verbatim>\<open>..\<close> at the
  front of a relative path.
\<close>

definition proper :: "string \<Rightarrow> bool" where
  "proper seg = (seg \<noteq> [] \<and> seg \<noteq> ''.'' \<and> seg \<noteq> ''..'' \<and> CHR ''/'' \<notin> set seg)"


section \<open>Text and bytes\<close>

text \<open>
  A string of the language is a sequence of 16-bit code units (UTF-16). A file holds
  bytes. The driver always reads and writes with the encoding \<^verbatim>\<open>utf8\<close>, which is the
  runtime's and not the driver's: writing encodes the string, reading decodes the
  bytes.

  Encoding first reads the code units as code points: a high surrogate followed by a
  low one is one code point above \<^verbatim>\<open>U+FFFF\<close>, every other unit is its own code point,
  and a surrogate that stands alone is replaced by \<^verbatim>\<open>U+FFFD\<close>. Each code point then
  gives one to four bytes.
\<close>

type_synonym js_string = "16 word list"

definition isHighSurrogate :: "nat \<Rightarrow> bool" where
  "isHighSurrogate u = (55296 \<le> u \<and> u \<le> 56319)"

definition isLowSurrogate :: "nat \<Rightarrow> bool" where
  "isLowSurrogate u = (56320 \<le> u \<and> u \<le> 57343)"

fun utf16_scalars :: "nat list \<Rightarrow> nat list" where
  "utf16_scalars [] = []"
| "utf16_scalars [u] = (if isHighSurrogate u \<or> isLowSurrogate u then [65533] else [u])"
| "utf16_scalars (u # l # us) =
     (if isHighSurrogate u \<and> isLowSurrogate l
      then (65536 + (u - 55296) * 1024 + (l - 56320)) # utf16_scalars us
      else if isHighSurrogate u \<or> isLowSurrogate u then 65533 # utf16_scalars (l # us)
      else u # utf16_scalars (l # us))"

fun utf8_bytes :: "nat \<Rightarrow> nat list" where
  "utf8_bytes c =
     (if c < 128 then [c]
      else if c < 2048 then [192 + c div 64, 128 + c mod 64]
      else if c < 65536 then [224 + c div 4096, 128 + c div 64 mod 64, 128 + c mod 64]
      else [240 + c div 262144, 128 + c div 4096 mod 64, 128 + c div 64 mod 64, 128 + c mod 64])"

definition utf8_encode :: "js_string \<Rightarrow> string" where
  "utf8_encode d = map char_of (concat (map utf8_bytes (utf16_scalars (map unat d))))"

text \<open>
  Decoding reads a lead byte and the continuation bytes it asks for. The second byte
  of a sequence has a narrower range after the lead bytes \<^verbatim>\<open>E0\<close>, \<^verbatim>\<open>ED\<close>, \<^verbatim>\<open>F0\<close> and
  \<^verbatim>\<open>F4\<close>, which keeps out the encodings that are too long, the surrogates and the code
  points above \<^verbatim>\<open>U+10FFFF\<close>. Where the bytes are not a sequence, \<^verbatim>\<open>U+FFFD\<close> stands for
  the part read so far and decoding goes on with the byte that did not fit. A code
  point above \<^verbatim>\<open>U+FFFF\<close> becomes two code units.
\<close>

definition continuation :: "nat \<Rightarrow> nat \<Rightarrow> nat \<Rightarrow> bool" where
  "continuation lower upper b = (lower \<le> b \<and> b \<le> upper)"

fun utf8_scalars :: "nat list \<Rightarrow> nat list" where
  "utf8_scalars [] = []"
| "utf8_scalars (b # bs) =
     (if b < 128 then b # utf8_scalars bs
      else if 194 \<le> b \<and> b \<le> 223 then
        (case bs of
           [] \<Rightarrow> [65533]
         | b2 # r2 \<Rightarrow>
             if continuation 128 191 b2 then ((b - 192) * 64 + (b2 - 128)) # utf8_scalars r2
             else 65533 # utf8_scalars bs)
      else if 224 \<le> b \<and> b \<le> 239 then
        (case bs of
           [] \<Rightarrow> [65533]
         | b2 # r2 \<Rightarrow>
             if continuation (if b = 224 then 160 else 128) (if b = 237 then 159 else 191) b2 then
               (case r2 of
                  [] \<Rightarrow> [65533]
                | b3 # r3 \<Rightarrow>
                    if continuation 128 191 b3
                    then ((b - 224) * 4096 + (b2 - 128) * 64 + (b3 - 128)) # utf8_scalars r3
                    else 65533 # utf8_scalars r2)
             else 65533 # utf8_scalars bs)
      else if 240 \<le> b \<and> b \<le> 244 then
        (case bs of
           [] \<Rightarrow> [65533]
         | b2 # r2 \<Rightarrow>
             if continuation (if b = 240 then 144 else 128) (if b = 244 then 143 else 191) b2 then
               (case r2 of
                  [] \<Rightarrow> [65533]
                | b3 # r3 \<Rightarrow>
                    if continuation 128 191 b3 then
                      (case r3 of
                         [] \<Rightarrow> [65533]
                       | b4 # r4 \<Rightarrow>
                           if continuation 128 191 b4
                           then ((b - 240) * 262144 + (b2 - 128) * 4096 + (b3 - 128) * 64
                                 + (b4 - 128)) # utf8_scalars r4
                           else 65533 # utf8_scalars r3)
                    else 65533 # utf8_scalars r2)
             else 65533 # utf8_scalars bs)
      else 65533 # utf8_scalars bs)"

fun utf16_units :: "nat \<Rightarrow> nat list" where
  "utf16_units c =
     (if c < 65536 then [c]
      else [55296 + (c - 65536) div 1024, 56320 + (c - 65536) mod 1024])"

definition utf8_decode :: "string \<Rightarrow> js_string" where
  "utf8_decode bs = map of_nat (concat (map utf16_units (utf8_scalars (map of_char bs))))"

text \<open>
  A string is well formed when every surrogate in it is half of a pair, as
  \<^verbatim>\<open>String.prototype.isWellFormed\<close> tells. A scalar value is a code point that is not a
  surrogate.
\<close>

fun wellformed :: "nat list \<Rightarrow> bool" where
  "wellformed [] = True"
| "wellformed [u] = (\<not> isHighSurrogate u \<and> \<not> isLowSurrogate u)"
| "wellformed (u # l # us) =
     (if isHighSurrogate u then isLowSurrogate l \<and> wellformed us
      else \<not> isLowSurrogate u \<and> wellformed (l # us))"

definition isWellFormed :: "js_string \<Rightarrow> bool" where
  "isWellFormed d = wellformed (map unat d)"

definition scalar :: "nat \<Rightarrow> bool" where
  "scalar c = (c < 1114112 \<and> \<not> (55296 \<le> c \<and> c \<le> 57343))"

section \<open>The native file system\<close>

text \<open>
  The driver reaches the disk only through the runtime's \<^verbatim>\<open>fs\<close> calls. They are the
  environment of the program, so they are modelled here as a small POSIX-like file
  system: a table from absolute paths (lists of segments below the root) to entries.
  An entry is a regular file with its bytes, a directory, a symbolic link with its
  target, or something else (a socket, a device). Of the permissions two are kept:
  whether the calling process may read the entry, which is what \<^verbatim>\<open>fs.access\<close> with
  \<^verbatim>\<open>R_OK\<close> tests, and whether it may write it, which opening an existing file for
  writing needs. The permissions of a directory over the names in it, and the other
  failures of a disk (a full device), are outside this model. A symbolic link is
  followed when it is the last segment of a path; the table is read at the key of a
  path, which is where the entry is as long as no entry above it is a symbolic link.
\<close>

datatype errno = ENOENT | EACCES | EEXIST | ENOTDIR | EISDIR | ENOTEMPTY | ELOOP | EBUSY | EINVAL | ENXIO

datatype inode = RegularFile string | Directory | SymbolicLink string | Special

record entry =
  inode :: inode
  readable :: bool
  writable :: bool

record native_fs =
  cwd :: "string list"
  entries :: "(string list \<times> entry) list"

text \<open>\<^verbatim>\<open>process.cwd()\<close>: always an absolute path.\<close>

definition process_cwd :: "native_fs \<Rightarrow> string" where
  "process_cwd s = ''/'' @ join_sep (cwd s)"

text \<open>The table key a native call looks a path up under.\<close>

definition key :: "native_fs \<Rightarrow> string \<Rightarrow> string list" where
  "key s p = resolveSegments (process_cwd s) p"

text \<open>
  The runtime checks the arguments of a native call before it does anything. For a
  path with a NUL character, and for a mode that is not an unsigned 32-bit integer, the
  call throws at once: nothing is done on the disk and the callback is never called.
  The definitions of the native calls below say what a call does once its arguments are
  accepted.
\<close>

definition validPath :: "string \<Rightarrow> bool" where
  "validPath p = (CHR 0x00 \<notin> set p)"

definition validMode :: "nat \<Rightarrow> bool" where
  "validMode mode = (mode < 2 ^ 32)"

definition lookup :: "native_fs \<Rightarrow> string list \<Rightarrow> entry option" where
  "lookup s k = map_of (entries s) k"

definition put :: "native_fs \<Rightarrow> string list \<Rightarrow> entry \<Rightarrow> native_fs" where
  "put s k e = s\<lparr>entries := AList.update k e (entries s)\<rparr>"

definition remove :: "native_fs \<Rightarrow> string list \<Rightarrow> native_fs" where
  "remove s k = s\<lparr>entries := AList.delete k (entries s)\<rparr>"

text \<open>The names in the directory at \<open>k\<close>, in the order of the table.\<close>

definition children :: "native_fs \<Rightarrow> string list \<Rightarrow> string list" where
  "children s k = map last (filter (\<lambda>k'. k' \<noteq> [] \<and> butlast k' = k) (map fst (entries s)))"

text \<open>The error of a call that would create an entry at \<open>k\<close>, if its parent forbids it.\<close>

definition parent_error :: "native_fs \<Rightarrow> string list \<Rightarrow> errno option" where
  "parent_error s k =
     (if k = [] then Some EEXIST
      else case lookup s (butlast k) of
             None \<Rightarrow> Some ENOENT
           | Some e \<Rightarrow> (if inode e = Directory then None else Some ENOTDIR))"

definition link_target :: "string list \<Rightarrow> string \<Rightarrow> string list" where
  "link_target k t =
     normalizeSegments False ((if isAbsolute t then [] else butlast k) @ split_sep t)"

definition maxSymlinks :: nat where
  "maxSymlinks = 40"

text \<open>
  Following symbolic links from \<open>k\<close>: the key of the first entry that is not a link, or
  of the first missing one; \<open>None\<close> after too many links.
\<close>

fun follow :: "nat \<Rightarrow> native_fs \<Rightarrow> string list \<Rightarrow> string list option" where
  "follow 0 s k = None"
| "follow (Suc n) s k =
     (case lookup s k of
        None \<Rightarrow> Some k
      | Some e \<Rightarrow>
          (case inode e of
             SymbolicLink t \<Rightarrow> follow n s (link_target k t)
           | _ \<Rightarrow> Some k))"

definition native_stat :: "native_fs \<Rightarrow> string \<Rightarrow> errno + (string list \<times> entry)" where
  "native_stat s p =
     (case follow maxSymlinks s (key s p) of
        None \<Rightarrow> Inl ELOOP
      | Some k \<Rightarrow> (case lookup s k of None \<Rightarrow> Inl ENOENT | Some e \<Rightarrow> Inr (k, e)))"

text \<open>\<^verbatim>\<open>fs.access(path, fs.constants.R_OK, cb)\<close>: the error handed to the callback, if any.\<close>

definition native_access :: "native_fs \<Rightarrow> string \<Rightarrow> errno option" where
  "native_access s p =
     (case native_stat s p of
        Inl err \<Rightarrow> Some err
      | Inr (k, e) \<Rightarrow> (if readable e then None else Some EACCES))"

text \<open>\<^verbatim>\<open>fs.lstat\<close>: the entry itself, a link is not followed.\<close>

type_synonym stats = entry

definition native_lstat :: "native_fs \<Rightarrow> string \<Rightarrow> errno + stats" where
  "native_lstat s p = (case lookup s (key s p) of None \<Rightarrow> Inl ENOENT | Some e \<Rightarrow> Inr e)"

definition stats_isFile :: "stats \<Rightarrow> bool" where
  "stats_isFile st = (case inode st of RegularFile _ \<Rightarrow> True | _ \<Rightarrow> False)"

definition stats_isDirectory :: "stats \<Rightarrow> bool" where
  "stats_isDirectory st = (case inode st of Directory \<Rightarrow> True | _ \<Rightarrow> False)"

definition stats_isSymbolicLink :: "stats \<Rightarrow> bool" where
  "stats_isSymbolicLink st = (case inode st of SymbolicLink _ \<Rightarrow> True | _ \<Rightarrow> False)"

text \<open>The bytes of the file at a path, for a call that reads it.\<close>

definition native_readBytes :: "native_fs \<Rightarrow> string \<Rightarrow> errno + string" where
  "native_readBytes s p =
     (case native_stat s p of
        Inl err \<Rightarrow> Inl err
      | Inr (k, e) \<Rightarrow>
          (case inode e of
             RegularFile c \<Rightarrow> (if readable e then Inr c else Inl EACCES)
           | Directory \<Rightarrow> Inl EISDIR
           | _ \<Rightarrow> Inl ENXIO))"

text \<open>\<^verbatim>\<open>fs.readFile(path, 'utf8', cb)\<close>: the bytes, decoded.\<close>

definition native_readFile :: "native_fs \<Rightarrow> string \<Rightarrow> errno + js_string" where
  "native_readFile s p =
     (case native_readBytes s p of
        Inl err \<Rightarrow> Inl err
      | Inr bytes \<Rightarrow> Inr (utf8_decode bytes))"

text \<open>
  Writing bytes with the flag \<^verbatim>\<open>w\<close> (\<open>appending = False\<close>: the file is created or
  truncated) or \<^verbatim>\<open>a\<close> (\<open>appending = True\<close>: created or appended to). A file that is
  there must be one the process may write; a new file is the process's own.
\<close>

definition native_store :: "bool \<Rightarrow> native_fs \<Rightarrow> string \<Rightarrow> string \<Rightarrow> (errno + unit) \<times> native_fs" where
  "native_store appending s p d =
     (case follow maxSymlinks s (key s p) of
        None \<Rightarrow> (Inl ELOOP, s)
      | Some k \<Rightarrow>
          (case lookup s k of
             None \<Rightarrow>
               (case parent_error s k of
                  Some err \<Rightarrow> (Inl err, s)
                | None \<Rightarrow>
                    (Inr (), put s k \<lparr>inode = RegularFile d, readable = True, writable = True\<rparr>))
           | Some e \<Rightarrow>
               (case inode e of
                  RegularFile c \<Rightarrow>
                    (if writable e
                     then (Inr (), put s k (e\<lparr>inode := RegularFile (if appending then c @ d else d)\<rparr>))
                     else (Inl EACCES, s))
                | Directory \<Rightarrow> (Inl EISDIR, s)
                | _ \<Rightarrow> (Inl ENXIO, s))))"

text \<open>
  \<^verbatim>\<open>fs.writeFile(path, data, 'utf8', cb)\<close> and \<^verbatim>\<open>fs.appendFile(path, data, 'utf8', cb)\<close>:
  the string is encoded and its bytes are written.
\<close>

definition native_writeFile :: "native_fs \<Rightarrow> string \<Rightarrow> js_string \<Rightarrow> (errno + unit) \<times> native_fs" where
  "native_writeFile s p d = native_store False s p (utf8_encode d)"

definition native_appendFile :: "native_fs \<Rightarrow> string \<Rightarrow> js_string \<Rightarrow> (errno + unit) \<times> native_fs" where
  "native_appendFile s p d = native_store True s p (utf8_encode d)"

definition native_unlink :: "native_fs \<Rightarrow> string \<Rightarrow> (errno + unit) \<times> native_fs" where
  "native_unlink s p =
     (let k = key s p in
      case lookup s k of
        None \<Rightarrow> (Inl ENOENT, s)
      | Some e \<Rightarrow> (if inode e = Directory then (Inl EISDIR, s) else (Inr (), remove s k)))"

definition native_rmdir :: "native_fs \<Rightarrow> string \<Rightarrow> (errno + unit) \<times> native_fs" where
  "native_rmdir s p =
     (let k = key s p in
      case lookup s k of
        None \<Rightarrow> (Inl ENOENT, s)
      | Some e \<Rightarrow>
          (if inode e \<noteq> Directory then (Inl ENOTDIR, s)
           else if k = [] then (Inl EBUSY, s)
           else if children s k \<noteq> [] then (Inl ENOTEMPTY, s)
           else (Inr (), remove s k)))"

text \<open>The owner's read bit \<^verbatim>\<open>0o400\<close> and write bit \<^verbatim>\<open>0o200\<close> of a mode.\<close>

definition mode_readable :: "nat \<Rightarrow> bool" where
  "mode_readable mode = odd (mode div 256)"

definition mode_writable :: "nat \<Rightarrow> bool" where
  "mode_writable mode = odd (mode div 128)"

definition native_mkdir :: "native_fs \<Rightarrow> string \<Rightarrow> nat \<Rightarrow> (errno + unit) \<times> native_fs" where
  "native_mkdir s p mode =
     (let k = key s p in
      case parent_error s k of
        Some err \<Rightarrow> (Inl err, s)
      | None \<Rightarrow>
          (case lookup s k of
             Some e \<Rightarrow> (Inl EEXIST, s)
           | None \<Rightarrow>
               (Inr (),
                put s k \<lparr>inode = Directory, readable = mode_readable mode,
                         writable = mode_writable mode\<rparr>)))"

definition native_readdir :: "native_fs \<Rightarrow> string \<Rightarrow> errno + string list" where
  "native_readdir s p =
     (case native_stat s p of
        Inl err \<Rightarrow> Inl err
      | Inr (k, e) \<Rightarrow>
          (if inode e \<noteq> Directory then Inl ENOTDIR
           else if \<not> readable e then Inl EACCES
           else Inr (children s k)))"

definition native_chmod :: "native_fs \<Rightarrow> string \<Rightarrow> nat \<Rightarrow> (errno + unit) \<times> native_fs" where
  "native_chmod s p mode =
     (case native_stat s p of
        Inl err \<Rightarrow> (Inl err, s)
      | Inr (k, e) \<Rightarrow>
          (Inr (), put s k (e\<lparr>readable := mode_readable mode, writable := mode_writable mode\<rparr>)))"

text \<open>\<^verbatim>\<open>fs.copyFile\<close>: the bytes of the source, written to the destination.\<close>

definition native_copyFile :: "native_fs \<Rightarrow> string \<Rightarrow> string \<Rightarrow> (errno + unit) \<times> native_fs" where
  "native_copyFile s src dest =
     (case native_readBytes s src of
        Inl err \<Rightarrow> (Inl err, s)
      | Inr c \<Rightarrow> native_store False s dest c)"

text \<open>\<^verbatim>\<open>fs.rename\<close>: the entry at the old key moves to the new one, with all below it.\<close>

definition below :: "string list \<Rightarrow> string list \<Rightarrow> bool" where
  "below k k' = (take (length k) k' = k)"

definition native_rename :: "native_fs \<Rightarrow> string \<Rightarrow> string \<Rightarrow> (errno + unit) \<times> native_fs" where
  "native_rename s oldPath newPath =
     (let ko = key s oldPath; kn = key s newPath in
      case lookup s ko of
        None \<Rightarrow> (Inl ENOENT, s)
      | Some eo \<Rightarrow>
          (if ko = [] \<or> kn = [] then (Inl EBUSY, s)
           else case parent_error s kn of
             Some err \<Rightarrow> (Inl err, s)
           | None \<Rightarrow>
               (if ko = kn then (Inr (), s)
                else if below ko kn then (Inl EINVAL, s)
                else
                  let moved = s\<lparr>entries :=
                        map (\<lambda>(k, e). if below ko k then (kn @ drop (length ko) k, e) else (k, e))
                          (filter (\<lambda>(k, e). k \<noteq> kn) (entries s))\<rparr>
                  in case lookup s kn of
                       None \<Rightarrow> (Inr (), moved)
                     | Some en \<Rightarrow>
                         (if inode eo = Directory then
                            (if inode en \<noteq> Directory then (Inl ENOTDIR, s)
                             else if children s kn \<noteq> [] then (Inl ENOTEMPTY, s)
                             else (Inr (), moved))
                          else if inode en = Directory then (Inl EISDIR, s)
                          else (Inr (), moved)))))"

section \<open>Modules and error classes\<close>

text \<open>
  Modelled from the spec: the three error modules \<^verbatim>\<open>lib/errors/file-doesnt-exist.js\<close>,
  \<^verbatim>\<open>lib/errors/file-exists.js\<close> and \<^verbatim>\<open>lib/errors/invalid-path.js\<close> are not among the
  source files. The spec names three error kinds (NotFound, AlreadyExists, InvalidPath),
  so each module is taken to define one error class of its own, and a class is
  identified by the file that defines it. \<^verbatim>\<open>require\<close> gives the class of the file a
  request names, seen from the directory of the requiring file; a request without an
  extension names the \<^verbatim>\<open>.js\<close> file.
\<close>

datatype js_class = ClassDefinedIn string

definition require :: "string \<Rightarrow> string \<Rightarrow> js_class" where
  "require dir request =
     (let file = join [dir, request] in
      if drop (length file - 3) file = ''.js'' then ClassDefinedIn file
      else ClassDefinedIn (file @ ''.js''))"

text \<open>The requires of the local driver, \<^verbatim>\<open>lib/drivers/local.js\<close>.\<close>

definition Local_FileDoesntExist :: js_class where
  "Local_FileDoesntExist = require ''lib/drivers'' ''../errors/file-doesnt-exist''"

definition Local_FileExists :: js_class where
  "Local_FileExists = require ''lib/drivers'' ''../errors/file-exists''"

definition Local_InvalidPath :: js_class where
  "Local_InvalidPath = require ''lib/drivers'' ''../errors/invalid-path''"

text \<open>The package entry point, \<^verbatim>\<open>index.js\<close>, and what it exports.\<close>

record module_exports =
  Filesystem :: js_class
  FileDoesntExist :: js_class
  FileExists :: js_class
  InvalidPath :: js_class
  Driver_Local :: js_class

definition index_exports :: module_exports where
  "index_exports =
     \<lparr>Filesystem = require ''.'' ''./lib/filesystem'',
      FileDoesntExist = require ''.'' ''./lib/errors/file-doesnt-exist.js'',
      FileExists = require ''.'' ''./lib/errors/invalid-path.js'',
      InvalidPath = require ''.'' ''./lib/errors/invalid-path.js'',
      Driver_Local = require ''.'' ''./lib/drivers/local''\<rparr>"

text \<open>
  A rejected promise carries either an error the driver threw itself, an instance of
  one of its classes, or the error a native call handed to its callback, passed on as
  it is, or the error the runtime threw for an argument it refused. The message of an
  error is left out.
\<close>

datatype error = Thrown js_class | Native errno | ArgumentError

fun instanceof :: "error \<Rightarrow> js_class \<Rightarrow> bool" where
  "instanceof (Thrown c) c' = (c = c')"
| "instanceof (Native err) c' = False"
| "instanceof ArgumentError c' = False"

section \<open>The local driver\<close>

text \<open>
  Every method of the class \<^verbatim>\<open>Local\<close> is asynchronous: its promise is fulfilled with
  a value (\<open>Inr\<close>) or rejected with an error (\<open>Inl\<close>). A method that changes the disk
  returns the new state as well. One chain of calls is modelled, each call awaited
  before the next; awaiting a rejected promise throws its error, which rejects the
  promise of the caller.

  Where a method builds its promise by hand, the executor may call \<^verbatim>\<open>resolve\<close> and
  \<^verbatim>\<open>reject\<close> more than once. The first call settles the promise and the later ones
  do nothing.
\<close>

datatype 'a settle = Resolve 'a | Reject error

definition settled :: "'a settle \<Rightarrow> 'a settle list \<Rightarrow> error + 'a" where
  "settled first later = (case first of Resolve v \<Rightarrow> Inr v | Reject e \<Rightarrow> Inl e)"

text \<open>The result of a promisified native call.\<close>

definition promisify :: "errno + 'a \<Rightarrow> error + 'a" where
  "promisify r = (case r of Inl err \<Rightarrow> Inl (Native err) | Inr v \<Rightarrow> Inr v)"

text \<open>
  Every native call of the driver is made inside an asynchronous method or inside the
  executor of a promise, so an error the call throws for its arguments rejects the
  promise. \<open>native_call accepted outcome\<close> is the promise of a call that settles as
  \<open>outcome\<close> says when its arguments are accepted; \<open>native_call_on s\<close> is the same for
  a call that may change the disk \<open>s\<close>, which a call that throws leaves as it is.
\<close>

definition native_call :: "bool \<Rightarrow> error + 'a \<Rightarrow> error + 'a" where
  "native_call accepted outcome = (if accepted then outcome else Inl ArgumentError)"

definition native_call_on ::
  "native_fs \<Rightarrow> bool \<Rightarrow> (error + 'a) \<times> native_fs \<Rightarrow> (error + 'a) \<times> native_fs" where
  "native_call_on s accepted outcome = (if accepted then outcome else (Inl ArgumentError, s))"

definition Local_resolve :: "native_fs \<Rightarrow> string \<Rightarrow> string" where
  "Local_resolve s path = resolve (process_cwd s) path"

text \<open>\<^verbatim>\<open>if (err) resolve(false); resolve(true)\<close>\<close>

definition Local_exists :: "native_fs \<Rightarrow> string \<Rightarrow> error + bool" where
  "Local_exists s path =
     native_call (validPath (Local_resolve s path))
       (case native_access s (Local_resolve s path) of
          Some err \<Rightarrow> settled (Resolve False) [Resolve True]
        | None \<Rightarrow> settled (Resolve True) [])"

text \<open>
  \<^verbatim>\<open>if (err) reject(err); if (stats.isDirectory()) resolve(true); resolve(false)\<close>,
  and the same for the other two checks. After \<^verbatim>\<open>reject(err)\<close> the callback ends
  with a type error on the missing \<^verbatim>\<open>stats\<close>, outside the promise.
\<close>

definition Local_isDirectory :: "native_fs \<Rightarrow> string \<Rightarrow> error + bool" where
  "Local_isDirectory s path =
     (case Local_exists s path of
        Inl e \<Rightarrow> Inl e
      | Inr False \<Rightarrow> Inl (Thrown Local_FileDoesntExist)
      | Inr True \<Rightarrow>
          native_call (validPath (Local_resolve s path))
            (case native_lstat s (Local_resolve s path) of
               Inl err \<Rightarrow> settled (Reject (Native err)) []
             | Inr stats \<Rightarrow>
                 (if stats_isDirectory stats then settled (Resolve True) [Resolve False]
                  else settled (Resolve False) [])))"

definition Local_isFile :: "native_fs \<Rightarrow> string \<Rightarrow> error + bool" where
  "Local_isFile s path =
     (case Local_exists s path of
        Inl e \<Rightarrow> Inl e
      | Inr False \<Rightarrow> Inl (Thrown Local_FileDoesntExist)
      | Inr True \<Rightarrow>
          native_call (validPath (Local_resolve s path))
            (case native_lstat s (Local_resolve s path) of
               Inl err \<Rightarrow> settled (Reject (Native err)) []
             | Inr stats \<Rightarrow>
                 (if stats_isFile stats then settled (Resolve True) [Resolve False]
                  else settled (Resolve False) [])))"

definition Local_isSymbolicLink :: "native_fs \<Rightarrow> string \<Rightarrow> error + bool" where
  "Local_isSymbolicLink s path =
     (case Local_exists s path of
        Inl e \<Rightarrow> Inl e
      | Inr False \<Rightarrow> Inl (Thrown Local_FileDoesntExist)
      | Inr True \<Rightarrow>
          native_call (validPath (Local_resolve s path))
            (case native_lstat s (Local_resolve s path) of
               Inl err \<Rightarrow> settled (Reject (Native err)) []
             | Inr stats \<Rightarrow>
                 (if stats_isSymbolicLink stats then settled (Resolve True) [Resolve False]
                  else settled (Resolve False) [])))"

definition Local_read :: "native_fs \<Rightarrow> string \<Rightarrow> error + js_string" where
  "Local_read s path =
     (let read = native_call (validPath (Local_resolve s path))
            (promisify (native_readFile s (Local_resolve s path)))
      in case Local_exists s path of
           Inl e \<Rightarrow> Inl e
         | Inr False \<Rightarrow> Inl (Thrown Local_FileDoesntExist)
         | Inr True \<Rightarrow>
             (case Local_isFile s path of
                Inl e \<Rightarrow> Inl e
              | Inr True \<Rightarrow> read
              | Inr False \<Rightarrow>
                  (case Local_isSymbolicLink s path of
                     Inl e \<Rightarrow> Inl e
                   | Inr True \<Rightarrow> read
                   | Inr False \<Rightarrow> Inl (Thrown Local_InvalidPath))))"

definition Local_write :: "native_fs \<Rightarrow> string \<Rightarrow> js_string \<Rightarrow> (error + unit) \<times> native_fs" where
  "Local_write s path data =
     (case Local_isFile s path of
        Inl e \<Rightarrow> (Inl e, s)
      | Inr False \<Rightarrow> (Inl (Thrown Local_InvalidPath), s)
      | Inr True \<Rightarrow>
          native_call_on s (validPath (Local_resolve s path))
            (apfst promisify (native_writeFile s (Local_resolve s path) data)))"

definition Local_delete :: "native_fs \<Rightarrow> string \<Rightarrow> (error + unit) \<times> native_fs" where
  "Local_delete s path =
     (let unlink = native_call_on s (validPath (Local_resolve s path))
            (apfst promisify (native_unlink s (Local_resolve s path)));
          rmdir = native_call_on s (validPath (Local_resolve s path))
            (apfst promisify (native_rmdir s (Local_resolve s path)))
      in case Local_exists s path of
           Inl e \<Rightarrow> (Inl e, s)
         | Inr False \<Rightarrow> (Inl (Thrown Local_FileDoesntExist), s)
         | Inr True \<Rightarrow>
             (case Local_isFile s path of
                Inl e \<Rightarrow> (Inl e, s)
              | Inr True \<Rightarrow> unlink
              | Inr False \<Rightarrow>
                  (case Local_isSymbolicLink s path of
                     Inl e \<Rightarrow> (Inl e, s)
                   | Inr True \<Rightarrow> unlink
                   | Inr False \<Rightarrow>
                       (case Local_isDirectory s path of
                          Inl e \<Rightarrow> (Inl e, s)
                        | Inr True \<Rightarrow> rmdir
                        | Inr False \<Rightarrow> (Inl (Thrown Local_InvalidPath), s)))))"

definition Local_readDir :: "native_fs \<Rightarrow> string \<Rightarrow> error + string list" where
  "Local_readDir s path =
     (case Local_exists s path of
        Inl e \<Rightarrow> Inl e
      | Inr False \<Rightarrow> Inl (Thrown Local_FileDoesntExist)
      | Inr True \<Rightarrow>
          native_call (validPath (Local_resolve s path))
            (promisify (native_readdir s (Local_resolve s path))))"


definition Local_append :: "native_fs \<Rightarrow> string \<Rightarrow> js_string \<Rightarrow> (error + unit) \<times> native_fs" where
  "Local_append s path data =
     native_call_on s (validPath (Local_resolve s path))
       (apfst promisify (native_appendFile s (Local_resolve s path) data))"

definition Local_chmod :: "native_fs \<Rightarrow> string \<Rightarrow> nat \<Rightarrow> (error + unit) \<times> native_fs" where
  "Local_chmod s path mode =
     (case Local_exists s path of
        Inl e \<Rightarrow> (Inl e, s)
      | Inr False \<Rightarrow> (Inl (Thrown Local_FileDoesntExist), s)
      | Inr True \<Rightarrow>
          native_call_on s (validPath (Local_resolve s path) \<and> validMode mode)
            (apfst promisify (native_chmod s (Local_resolve s path) mode)))"

text \<open>An argument left out takes its default: \<open>None\<close> is \<^verbatim>\<open>undefined\<close>.\<close>

definition default_to :: "'a \<Rightarrow> 'a option \<Rightarrow> 'a" where
  "default_to d arg = (case arg of None \<Rightarrow> d | Some v \<Rightarrow> v)"

text \<open>\<^verbatim>\<open>!overwrite && await this.exists(destination)\<close> asks \<^verbatim>\<open>exists\<close> only without \<^verbatim>\<open>overwrite\<close>.\<close>

definition Local_copy ::
  "native_fs \<Rightarrow> string \<Rightarrow> string \<Rightarrow> bool option \<Rightarrow> (error + unit) \<times> native_fs" where
  "Local_copy s source destination overwrite_arg =
     (let overwrite = default_to True overwrite_arg;
          copied = native_call_on s
             (validPath (Local_resolve s source) \<and> validPath (Local_resolve s destination))
             (apfst promisify
                (native_copyFile s (Local_resolve s source) (Local_resolve s destination)))
      in case Local_exists s source of
           Inl e \<Rightarrow> (Inl e, s)
         | Inr False \<Rightarrow> (Inl (Thrown Local_FileDoesntExist), s)
         | Inr True \<Rightarrow>
             (if overwrite then copied
              else case Local_exists s destination of
                     Inl e \<Rightarrow> (Inl e, s)
                   | Inr True \<Rightarrow> (Inl (Thrown Local_FileExists), s)
                   | Inr False \<Rightarrow> copied))"

text \<open>
  The recursive branch of \<^verbatim>\<open>createDir\<close>. \<open>createDir_dirs\<close> is the \<^verbatim>\<open>reduce\<close> over the
  segments, and \<open>createDir_reduce\<close> the whole of it for a path: it gives the \<^verbatim>\<open>dir\<close> of
  every \<^verbatim>\<open>fs.mkdir(dir, mode, cb)\<close>, in the order of the calls. A call that throws for its arguments ends the \<^verbatim>\<open>reduce\<close> and
  rejects the promise; \<open>createDir_issued\<close> gives the calls made before that: none for a
  mode that is refused, else those up to the first path that is refused.
\<close>

fun createDir_dirs :: "string \<Rightarrow> string list \<Rightarrow> string list" where
  "createDir_dirs parent [] = []"
| "createDir_dirs parent (current # rest) =
     (let dir = join [parent, current] in dir # createDir_dirs dir rest)"

definition createDir_reduce :: "string \<Rightarrow> string list" where
  "createDir_reduce path = createDir_dirs [] (split_sep (join [dirname path, basename path]))"

definition createDir_issued :: "string list \<Rightarrow> nat \<Rightarrow> string list" where
  "createDir_issued dirs mode = (if validMode mode then takeWhile validPath dirs else [])"

text \<open>
  The native calls run on their own, and nothing in the code orders them: they finish
  in any order. \<open>mkdir_each\<close> lets the calls finish in the order of the list and
  collects the errors handed to the callbacks. A callback calls \<^verbatim>\<open>reject(err)\<close> for an
  error other than \<^verbatim>\<open>EEXIST\<close>; \<open>createDir_rejects\<close> gives these calls.
\<close>

fun mkdir_each :: "native_fs \<Rightarrow> string list \<Rightarrow> nat \<Rightarrow> errno list \<times> native_fs" where
  "mkdir_each s [] mode = ([], s)"
| "mkdir_each s (dir # dirs) mode =
     (case native_mkdir s dir mode of
        (Inl err, s') \<Rightarrow> apfst (\<lambda>errs. err # errs) (mkdir_each s' dirs mode)
      | (Inr u, s') \<Rightarrow> mkdir_each s' dirs mode)"

definition createDir_rejects :: "errno list \<Rightarrow> bool option settle list" where
  "createDir_rejects errs =
     map (\<lambda>err. Reject (Native err)) (filter (\<lambda>err. err \<noteq> EEXIST) errs)"


text \<open>
  \<^verbatim>\<open>createDir\<close>, with the order in which the native calls of the recursive branch
  finish as a parameter: \<open>finish\<close> maps the calls made to the same calls in the order
  they finish. The executor calls \<^verbatim>\<open>resolve(true)\<close> as soon as all calls are made,
  or is left by the error of a call that throws; what the callbacks do comes after
  that. The disk returned is the one the calls leave when all have finished. The value
  of the promise of the other branch is \<^verbatim>\<open>undefined\<close>, here \<open>None\<close>.
\<close>

definition Local_createDir_finishing ::
  "(string list \<Rightarrow> string list) \<Rightarrow> native_fs \<Rightarrow> string \<Rightarrow> nat option \<Rightarrow> bool option \<Rightarrow>
   (error + bool option) \<times> native_fs" where
  "Local_createDir_finishing finish s path mode_arg recursively_arg =
     (let mode = default_to 511 mode_arg; recursively = default_to False recursively_arg in
      if recursively then
        (let dirs = createDir_reduce path;
             issued = createDir_issued dirs mode
         in case mkdir_each s (finish issued) mode of
              (errs, s') \<Rightarrow>
                (settled (if issued = dirs then Resolve (Some True) else Reject ArgumentError)
                   (createDir_rejects errs),
                 s'))
      else
        (case Local_exists s path of
           Inl e \<Rightarrow> (Inl e, s)
         | Inr True \<Rightarrow> (Inl (Thrown Local_FileExists), s)
         | Inr False \<Rightarrow>
             native_call_on s (validPath (Local_resolve s path) \<and> validMode mode)
               (case native_mkdir s (Local_resolve s path) mode of
                  (Inl err, s') \<Rightarrow> (Inl (Native err), s')
                | (Inr u, s') \<Rightarrow> (Inr None, s'))))"

text \<open>\<^verbatim>\<open>createDir\<close> when the native calls finish in the order they were made.\<close>

definition Local_createDir ::
  "native_fs \<Rightarrow> string \<Rightarrow> nat option \<Rightarrow> bool option \<Rightarrow> (error + bool option) \<times> native_fs" where
  "Local_createDir = Local_createDir_finishing (\<lambda>issued. issued)"

definition Local_rename :: "native_fs \<Rightarrow> string \<Rightarrow> string \<Rightarrow> (error + unit) \<times> native_fs" where
  "Local_rename s oldPath newPath =
     (case Local_exists s oldPath of
        Inl e \<Rightarrow> (Inl e, s)
      | Inr False \<Rightarrow> (Inl (Thrown Local_FileDoesntExist), s)
      | Inr True \<Rightarrow>
          (case Local_exists s newPath of
             Inl e \<Rightarrow> (Inl e, s)
           | Inr True \<Rightarrow> (Inl (Thrown Local_FileExists), s)
           | Inr False \<Rightarrow>
               native_call_on s
                 (validPath (Local_resolve s oldPath) \<and> validPath (Local_resolve s newPath))
                 (apfst promisify
                    (native_rename s (Local_resolve s oldPath) (Local_resolve s newPath)))))"

section \<open>The facade\<close>

text \<open>
  A driver is any object with the thirteen methods the class \<^verbatim>\<open>Filesystem\<close> calls
  (lib/filesystem.js). The facade hands the promise of the driver back as it is, so the
  type \<open>'r\<close> of promises is left open. The fields \<^verbatim>\<open>_driver\<close> and \<^verbatim>\<open>_tempDriver\<close> keep
  their names without the underscore; \<open>None\<close> is \<^verbatim>\<open>null\<close>.
\<close>

record 'r driver_object =
  driver_read :: "string \<Rightarrow> 'r"
  driver_write :: "string \<Rightarrow> js_string \<Rightarrow> 'r"
  driver_exists :: "string \<Rightarrow> 'r"
  driver_isDirectory :: "string \<Rightarrow> 'r"
  driver_isFile :: "string \<Rightarrow> 'r"
  driver_isSymbolicLink :: "string \<Rightarrow> 'r"
  driver_delete :: "string \<Rightarrow> 'r"
  driver_append :: "string \<Rightarrow> js_string \<Rightarrow> 'r"
  driver_chmod :: "string \<Rightarrow> nat \<Rightarrow> 'r"
  driver_copy :: "string \<Rightarrow> string \<Rightarrow> bool \<Rightarrow> 'r"
  driver_createDir :: "string \<Rightarrow> nat \<Rightarrow> bool \<Rightarrow> 'r"
  driver_readDir :: "string \<Rightarrow> 'r"
  driver_rename :: "string \<Rightarrow> string \<Rightarrow> 'r"

record 'r filesystem =
  driver :: "'r driver_object"
  tempDriver :: "'r driver_object option"

definition Filesystem_constructor :: "'r driver_object \<Rightarrow> 'r filesystem" where
  "Filesystem_constructor d = \<lparr>driver = d, tempDriver = None\<rparr>"

text \<open>\<^verbatim>\<open>in(driver)\<close>: the driver for the next call; the facade itself is returned.\<close>

definition Filesystem_in :: "'r filesystem \<Rightarrow> 'r driver_object \<Rightarrow> 'r filesystem" where
  "Filesystem_in fs d = fs\<lparr>tempDriver := Some d\<rparr>"

text \<open>\<^verbatim>\<open>_resolveDriver()\<close>: \<^verbatim>\<open>this._tempDriver || this._driver\<close>, and the reset.\<close>

definition Filesystem_resolveDriver :: "'r filesystem \<Rightarrow> 'r driver_object \<times> 'r filesystem" where
  "Filesystem_resolveDriver fs =
     (let d = (case tempDriver fs of Some t \<Rightarrow> t | None \<Rightarrow> driver fs)
      in (d, fs\<lparr>tempDriver := None\<rparr>))"

definition Filesystem_read :: "'r filesystem \<Rightarrow> string \<Rightarrow> 'r \<times> 'r filesystem" where
  "Filesystem_read fs path =
     (let (d, fs') = Filesystem_resolveDriver fs in (driver_read d path, fs'))"

definition Filesystem_write :: "'r filesystem \<Rightarrow> string \<Rightarrow> js_string \<Rightarrow> 'r \<times> 'r filesystem" where
  "Filesystem_write fs path data =
     (let (d, fs') = Filesystem_resolveDriver fs in (driver_write d path data, fs'))"

definition Filesystem_exists :: "'r filesystem \<Rightarrow> string \<Rightarrow> 'r \<times> 'r filesystem" where
  "Filesystem_exists fs path =
     (let (d, fs') = Filesystem_resolveDriver fs in (driver_exists d path, fs'))"

definition Filesystem_isDirectory :: "'r filesystem \<Rightarrow> string \<Rightarrow> 'r \<times> 'r filesystem" where
  "Filesystem_isDirectory fs path =
     (let (d, fs') = Filesystem_resolveDriver fs in (driver_isDirectory d path, fs'))"

definition Filesystem_isFile :: "'r filesystem \<Rightarrow> string \<Rightarrow> 'r \<times> 'r filesystem" where
  "Filesystem_isFile fs path =
     (let (d, fs') = Filesystem_resolveDriver fs in (driver_isFile d path, fs'))"

definition Filesystem_isSymbolicLink :: "'r filesystem \<Rightarrow> string \<Rightarrow> 'r \<times> 'r filesystem" where
  "Filesystem_isSymbolicLink fs path =
     (let (d, fs') = Filesystem_resolveDriver fs in (driver_isSymbolicLink d path, fs'))"

definition Filesystem_delete :: "'r filesystem \<Rightarrow> string \<Rightarrow> 'r \<times> 'r filesystem" where
  "Filesystem_delete fs path =
     (let (d, fs') = Filesystem_resolveDriver fs in (driver_delete d path, fs'))"

definition Filesystem_append :: "'r filesystem \<Rightarrow> string \<Rightarrow> js_string \<Rightarrow> 'r \<times> 'r filesystem" where
  "Filesystem_append fs path data =
     (let (d, fs') = Filesystem_resolveDriver fs in (driver_append d path data, fs'))"

definition Filesystem_chmod :: "'r filesystem \<Rightarrow> string \<Rightarrow> nat \<Rightarrow> 'r \<times> 'r filesystem" where
  "Filesystem_chmod fs path mode =
     (let (d, fs') = Filesystem_resolveDriver fs in (driver_chmod d path mode, fs'))"

definition Filesystem_copy ::
  "'r filesystem \<Rightarrow> string \<Rightarrow> string \<Rightarrow> bool option \<Rightarrow> 'r \<times> 'r filesystem" where
  "Filesystem_copy fs source destination overwrite_arg =
     (let overwrite = default_to True overwrite_arg;
          (d, fs') = Filesystem_resolveDriver fs
      in (driver_copy d source destination overwrite, fs'))"

definition Filesystem_createDir ::
  "'r filesystem \<Rightarrow> string \<Rightarrow> nat option \<Rightarrow> bool option \<Rightarrow> 'r \<times> 'r filesystem" where
  "Filesystem_createDir fs path mode_arg recursively_arg =
     (let mode = default_to 511 mode_arg;
          recursively = default_to False recursively_arg;
          (d, fs') = Filesystem_resolveDriver fs
      in (driver_createDir d path mode recursively, fs'))"

definition Filesystem_readDir :: "'r filesystem \<Rightarrow> string \<Rightarrow> 'r \<times> 'r filesystem" where
  "Filesystem_readDir fs path =
     (let (d, fs') = Filesystem_resolveDriver fs in (driver_readDir d path, fs'))"

definition Filesystem_rename :: "'r filesystem \<Rightarrow> string \<Rightarrow> string \<Rightarrow> 'r \<times> 'r filesystem" where
  "Filesystem_rename fs oldPath newPath =
     (let (d, fs') = Filesystem_resolveDriver fs in (driver_rename d oldPath newPath, fs'))"

text \<open>
  To speak of any operation of the facade: a call names a method with its arguments,
  \<open>Filesystem_call\<close> makes the call on the facade, \<open>driver_call\<close> is the same call made
  on a driver directly, and \<open>Filesystem_calls\<close> makes one call after the other.
\<close>

datatype call =
    Read string
  | Write string js_string
  | Exists string
  | IsDirectory string
  | IsFile string
  | IsSymbolicLink string
  | Delete string
  | Append string js_string
  | Chmod string nat
  | Copy string string "bool option"
  | CreateDir string "nat option" "bool option"
  | ReadDir string
  | Rename string string

fun Filesystem_call :: "'r filesystem \<Rightarrow> call \<Rightarrow> 'r \<times> 'r filesystem" where
  "Filesystem_call fs (Read path) = Filesystem_read fs path"
| "Filesystem_call fs (Write path data) = Filesystem_write fs path data"
| "Filesystem_call fs (Exists path) = Filesystem_exists fs path"
| "Filesystem_call fs (IsDirectory path) = Filesystem_isDirectory fs path"
| "Filesystem_call fs (IsFile path) = Filesystem_isFile fs path"
| "Filesystem_call fs (IsSymbolicLink path) = Filesystem_isSymbolicLink fs path"
| "Filesystem_call fs (Delete path) = Filesystem_delete fs path"
| "Filesystem_call fs (Append path data) = Filesystem_append fs path data"
| "Filesystem_call fs (Chmod path mode) = Filesystem_chmod fs path mode"
| "Filesystem_call fs (Copy source destination overwrite) =
     Filesystem_copy fs source destination overwrite"
| "Filesystem_call fs (CreateDir path mode recursively) =
     Filesystem_createDir fs path mode recursively"
| "Filesystem_call fs (ReadDir path) = Filesystem_readDir fs path"
| "Filesystem_call fs (Rename oldPath newPath) = Filesystem_rename fs oldPath newPath"

fun driver_call :: "'r driver_object \<Rightarrow> call \<Rightarrow> 'r" where
  "driver_call d (Read path) = driver_read d path"
| "driver_call d (Write path data) = driver_write d path data"
| "driver_call d (Exists path) = driver_exists d path"
| "driver_call d (IsDirectory path) = driver_isDirectory d path"
| "driver_call d (IsFile path) = driver_isFile d path"
| "driver_call d (IsSymbolicLink path) = driver_isSymbolicLink d path"
| "driver_call d (Delete path) = driver_delete d path"
| "driver_call d (Append path data) = driver_append d path data"
| "driver_call d (Chmod path mode) = driver_chmod d path mode"
| "driver_call d (Copy source destination overwrite) =
     driver_copy d source destination (default_to True overwrite)"
| "driver_call d (CreateDir path mode recursively) =
     driver_createDir d path (default_to 511 mode) (default_to False recursively)"
| "driver_call d (ReadDir path) = driver_readDir d path"
| "driver_call d (Rename oldPath newPath) = driver_rename d oldPath newPath"

fun Filesystem_calls :: "'r filesystem \<Rightarrow> call list \<Rightarrow> 'r list \<times> 'r filesystem" where
  "Filesystem_calls fs [] = ([], fs)"
| "Filesystem_calls fs (c # cs) =
     (let (r, fs') = Filesystem_call fs c;
          (rs, fs'') = Filesystem_calls fs' cs
      in (r # rs, fs''))"

text \<open>An entry that is not a symbolic link.\<close>

definition plain :: "entry \<Rightarrow> bool" where
  "plain e = (case inode e of SymbolicLink t \<Rightarrow> False | _ \<Rightarrow> True)"


section \<open>Example states\<close>

text \<open>
  A small disk for the concrete cases below: the working directory \<^verbatim>\<open>/home/u\<close> holds
  a text file, a file the process may not read, two directories, one of them with a
  file and an empty directory in it, links to a file, to a directory and to
  nothing, and a file the process may read but not write.
\<close>

definition dir_entry :: entry where
  "dir_entry = \<lparr>inode = Directory, readable = True, writable = True\<rparr>"

definition file_entry :: "string \<Rightarrow> entry" where
  "file_entry c = \<lparr>inode = RegularFile c, readable = True, writable = True\<rparr>"

definition link_entry :: "string \<Rightarrow> entry" where
  "link_entry t = \<lparr>inode = SymbolicLink t, readable = True, writable = True\<rparr>"

text \<open>A text of plain characters as a string of the language: one code unit for each.\<close>

definition js :: "string \<Rightarrow> js_string" where
  "js str = map (\<lambda>c. of_nat (of_char c)) str"

definition example_fs :: native_fs where
  "example_fs =
     \<lparr>cwd = [''home'', ''u''],
      entries =
        [([], dir_entry),
         ([''home''], dir_entry),
         ([''home'', ''u''], dir_entry),
         ([''home'', ''u'', ''notes.txt''], file_entry ''hello''),
         ([''home'', ''u'', ''secret''],
          \<lparr>inode = RegularFile ''key'', readable = False, writable = True\<rparr>),
         ([''home'', ''u'', ''docs''], dir_entry),
         ([''home'', ''u'', ''tmp''], dir_entry),
         ([''home'', ''u'', ''tmp'', ''a.txt''], file_entry ''a''),
         ([''home'', ''u'', ''tmp'', ''sub''], dir_entry),
         ([''home'', ''u'', ''to-file''], link_entry ''notes.txt''),
         ([''home'', ''u'', ''to-dir''], link_entry ''/home/u/docs''),
         ([''home'', ''u'', ''to-nothing''], link_entry ''gone''),
         ([''home'', ''u'', ''readonly.txt''],
          \<lparr>inode = RegularFile ''fixed'', readable = True, writable = False\<rparr>)]\<rparr>"

section \<open>Paths: what the keys of the native calls are\<close>

lemma split_sep_not_Nil: "split_sep x \<noteq> []"
  by (induction x) (auto split: list.splits)

lemma split_sep_append: "split_sep (a @ CHR ''/'' # b) = split_sep a @ split_sep b"
proof (induction a)
  case Nil
  then show ?case by simp
next
  case (Cons c a)
  then show ?case
    using split_sep_not_Nil [of a] by (auto split: list.splits)
qed

lemma split_sep_plain: "CHR ''/'' \<notin> set x \<Longrightarrow> split_sep x = [x]"
  by (induction x) auto

lemma split_sep_no_slash: "y \<in> set (split_sep x) \<Longrightarrow> CHR ''/'' \<notin> set y"
proof (induction x arbitrary: y)
  case Nil
  then show ?case by simp
next
  case (Cons c x)
  then show ?case
    by (auto split: if_splits list.splits)
qed

lemma split_join_sep:
  "segs \<noteq> [] \<Longrightarrow> \<forall>x \<in> set segs. CHR ''/'' \<notin> set x \<Longrightarrow> split_sep (join_sep segs) = segs"
proof (induction segs rule: join_sep.induct)
  case 1
  then show ?case by simp
next
  case (2 x)
  then show ?case by (simp add: split_sep_plain)
next
  case (3 x y ys)
  then show ?case by (simp add: split_sep_append split_sep_plain)
qed

declare normalize_step.simps [simp del]

lemma step_proper: "proper x \<Longrightarrow> normalize_step b st x = x # st"
  by (simp add: normalize_step.simps proper_def)

lemma steps_proper:
  "\<forall>x \<in> set xs. proper x \<Longrightarrow> foldl (normalize_step b) st xs = rev xs @ st"
  by (induction xs arbitrary: st) (simp_all add: step_proper)

lemma step_False_proper:
  assumes "\<forall>y \<in> set st. proper y" and "CHR ''/'' \<notin> set x"
  shows "\<forall>y \<in> set (normalize_step False st x). proper y"
proof (cases "x = [] \<or> x = ''.''")
  case True
  with assms show ?thesis by (auto simp add: normalize_step.simps)
next
  case False
  note nontrivial = this
  show ?thesis
  proof (cases "x = ''..''")
    case True
    with assms show ?thesis by (cases st) (auto simp add: normalize_step.simps)
  next
    case False
    with nontrivial assms have "proper x" by (simp add: proper_def)
    with assms show ?thesis by (simp add: step_proper)
  qed
qed

lemma steps_False_proper:
  "\<forall>y \<in> set st. proper y \<Longrightarrow> \<forall>x \<in> set xs. CHR ''/'' \<notin> set x \<Longrightarrow>
   \<forall>y \<in> set (foldl (normalize_step False) st xs). proper y"
proof (induction xs arbitrary: st)
  case Nil
  then show ?case by simp
next
  case (Cons x xs)
  from Cons.prems have "\<forall>y \<in> set (normalize_step False st x). proper y"
    by (intro step_False_proper) simp_all
  with Cons.prems Cons.IH [of "normalize_step False st x"] show ?case by simp
qed

lemma normalizeSegments_False_proper:
  "\<forall>x \<in> set xs. CHR ''/'' \<notin> set x \<Longrightarrow> \<forall>y \<in> set (normalizeSegments False xs). proper y"
  using steps_False_proper [of "[]" xs] by (simp add: normalizeSegments_def)


lemma step_empty: "normalize_step b st [] = st"
  by (simp add: normalize_step.simps)

lemma normalizeSegments_snoc_empty: "normalizeSegments b (xs @ [[]]) = normalizeSegments b xs"
  by (simp add: normalizeSegments_def step_empty)

lemma normalizeSegments_cons_empty: "normalizeSegments b ([] # xs) = normalizeSegments b xs"
  by (simp add: normalizeSegments_def step_empty)


lemma normalizeSegments_proper:
  "\<forall>x \<in> set xs. proper x \<Longrightarrow> normalizeSegments b xs = xs"
  by (simp add: normalizeSegments_def steps_proper)

lemma isAbsolute_process_cwd: "isAbsolute (process_cwd s)"
  by (simp add: process_cwd_def isAbsolute_def)

lemma isAbsolute_simps: "isAbsolute [] = False" "isAbsolute (c # cs) = (c = CHR ''/'')"
  by (simp_all add: isAbsolute_def)

lemma isAbsolute_append: "isAbsolute a \<Longrightarrow> isAbsolute (a @ b)"
  by (cases a) (simp_all add: isAbsolute_def)

lemma split_sep_snoc_slash: "split_sep (a @ ''/'') = split_sep a @ [[]]"
  using split_sep_append [of a "[]"] by simp

lemma process_cwd_not_Nil: "process_cwd s \<noteq> []"
  by (simp add: process_cwd_def)

lemma resolve_loop_cwd:
  "resolve_loop (process_cwd s) p =
     (if p = [] then process_cwd s @ ''/''
      else if isAbsolute p then p @ ''/''
      else process_cwd s @ ''/'' @ p @ ''/'', True)"
  using isAbsolute_process_cwd [of s] process_cwd_not_Nil [of s]
  by (simp add: resolve_loop_def isAbsolute_simps)

lemma resolveSegments_cwd:
  "resolveSegments (process_cwd s) p =
     normalizeSegments False
       (split_sep (if p = [] then process_cwd s @ ''/''
                   else if isAbsolute p then p @ ''/''
                   else process_cwd s @ ''/'' @ p @ ''/''))"
  by (simp add: resolveSegments_def resolve_loop_cwd)

lemma key_eq:
  "key s p =
     normalizeSegments False ((if isAbsolute p then [] else split_sep (process_cwd s)) @ split_sep p)"
proof (cases "p = []")
  case True
  then show ?thesis
    using isAbsolute_process_cwd [of s]
    by (simp add: key_def resolveSegments_cwd isAbsolute_append split_sep_snoc_slash
        normalizeSegments_snoc_empty isAbsolute_simps)
next
  case False
  show ?thesis
  proof (cases "isAbsolute p")
    case True
    then show ?thesis
      using False
      by (simp add: key_def resolveSegments_cwd isAbsolute_append split_sep_snoc_slash
          normalizeSegments_snoc_empty)
  next
    case rel: False
    have "split_sep (process_cwd s @ ''/'' @ p @ ''/'') =
        (split_sep (process_cwd s) @ split_sep p) @ [[]]"
      using split_sep_append [of "process_cwd s" "p @ ''/''"] split_sep_snoc_slash [of p]
      by simp
    then show ?thesis
      using False rel isAbsolute_process_cwd [of s]
      by (simp add: key_def resolveSegments_cwd isAbsolute_append normalizeSegments_snoc_empty
          del: append_assoc)
  qed
qed

lemma key_proper: "\<forall>x \<in> set (key s p). proper x"
  unfolding key_eq
  by (rule normalizeSegments_False_proper) (auto dest: split_sep_no_slash)

lemma proper_no_slash: "\<forall>x \<in> set K. proper x \<Longrightarrow> \<forall>x \<in> set K. CHR ''/'' \<notin> set x"
  by (simp add: proper_def)

lemma Local_resolve_eq: "Local_resolve s p = CHR ''/'' # join_sep (key s p)"
  by (simp add: Local_resolve_def resolve_def resolve_loop_cwd key_def)

lemma key_of_absolute_join:
  assumes "\<forall>x \<in> set K. proper x"
  shows "key s (CHR ''/'' # join_sep K) = K"
proof (cases "K = []")
  case True
  then show ?thesis
    by (simp add: key_eq isAbsolute_simps normalizeSegments_def step_empty)
next
  case False
  with assms have "split_sep (join_sep K) = K"
    by (intro split_join_sep) (simp_all add: proper_def)
  with assms show ?thesis
    by (simp add: key_eq isAbsolute_simps normalizeSegments_cons_empty normalizeSegments_proper)
qed

lemma key_Local_resolve: "key s (Local_resolve s p) = key s p"
  by (simp add: Local_resolve_eq key_of_absolute_join key_proper)




















section \<open>Text and bytes: what is written is read back\<close>

text \<open>
  Decoding the bytes of a scalar value gives the value back, so encoding and decoding
  a well-formed string gives the string back. A surrogate on its own does not come
  back: it is written as the bytes of \<^verbatim>\<open>U+FFFD\<close>.
\<close>

declare utf8_bytes.simps [simp del]
declare utf8_scalars.simps(2) [simp del]
declare utf16_units.simps [simp del]

lemma decode1:
  assumes "c < 128"
  shows "utf8_scalars (utf8_bytes c @ rest) = c # utf8_scalars rest"
  using assms by (simp add: utf8_bytes.simps utf8_scalars.simps(2))

lemma decode2:
  assumes "128 \<le> c" "c < 2048"
  shows "utf8_scalars (utf8_bytes c @ rest) = c # utf8_scalars rest"
proof -
  define q where "q = c div 64"
  define r where "r = c mod 64"
  have c: "c = q * 64 + r" by (simp add: q_def r_def)
  have r: "r < 64" by (simp add: r_def)
  have q: "2 \<le> q" "q < 32" using assms by (simp_all add: q_def)
  have "utf8_bytes c = [192 + q, 128 + r]"
    using assms by (simp add: utf8_bytes.simps q_def r_def)
  moreover have "utf8_scalars ((192 + q) # (128 + r) # rest) = (q * 64 + r) # utf8_scalars rest"
    using q r by (simp add: utf8_scalars.simps(2) continuation_def)
  ultimately show ?thesis using c by simp
qed


lemma d1: "(c::nat) div 4096 = c div 64 div 64" by (simp add: div_mult2_eq [symmetric])
lemma d2: "(c::nat) div 262144 = c div 4096 div 64" by (simp add: div_mult2_eq [symmetric])
lemma e1: "(a::nat) = q * 64 + m \<Longrightarrow> c = a * 64 + r \<Longrightarrow> c = q * 4096 + m * 64 + r"
  by simp
lemma e2: "(b::nat) = q * 64 + l \<Longrightarrow> c = b * 4096 + m * 64 + r \<Longrightarrow>
   c = q * 262144 + l * 4096 + m * 64 + r"
  by simp
lemma split3:
  fixes c :: nat
  defines "q \<equiv> c div 4096" and "m \<equiv> c div 64 mod 64" and "r \<equiv> c mod 64"
  shows "c = q * 4096 + m * 64 + r"
proof (rule e1)
  show "c div 64 = q * 64 + m" unfolding q_def m_def d1 by simp
  show "c = c div 64 * 64 + r" unfolding r_def by simp
qed
lemma split4:
  fixes c :: nat
  defines "q \<equiv> c div 262144" and "l \<equiv> c div 4096 mod 64"
    and "m \<equiv> c div 64 mod 64" and "r \<equiv> c mod 64"
  shows "c = q * 262144 + l * 4096 + m * 64 + r"
proof (rule e2)
  show "c div 4096 = q * 64 + l" unfolding q_def l_def d2 by simp
  show "c = c div 4096 * 4096 + m * 64 + r" unfolding m_def r_def by (rule split3)
qed

lemma decode3:
  assumes "2048 \<le> c" "c < 65536" "\<not> (55296 \<le> c \<and> c \<le> 57343)"
  shows "utf8_scalars (utf8_bytes c @ rest) = c # utf8_scalars rest"
proof -
  define q where "q = c div 4096"
  define m where "m = c div 64 mod 64"
  define r where "r = c mod 64"
  have c: "c = q * 4096 + m * 64 + r"
    unfolding q_def m_def r_def by (rule split3)
  have r: "r < 64" by (simp add: r_def)
  have m: "m < 64" by (simp add: m_def)
  have q: "q < 16" using assms(2) by (simp add: q_def)
  have lo: "q = 0 \<Longrightarrow> 32 \<le> m" using assms(1) c r by arith
  have hi: "q = 13 \<Longrightarrow> m < 32" using assms(3) c r m by arith
  have bytes: "utf8_bytes c = [224 + q, 128 + m, 128 + r]"
    using assms by (simp add: utf8_bytes.simps q_def m_def r_def)
  have lead: "\<not> 224 + q < 128" "\<not> (194 \<le> 224 + q \<and> 224 + q \<le> 223)"
      "224 \<le> 224 + q \<and> 224 + q \<le> 239"
    using q by simp_all
  have second: "continuation (if 224 + q = 224 then 160 else 128)
      (if 224 + q = 237 then 159 else 191) (128 + m)"
    using lo hi m by (auto simp: continuation_def)
  have third: "continuation 128 191 (128 + r)"
    using r by (simp add: continuation_def)
  have "utf8_scalars ((224 + q) # (128 + m) # (128 + r) # rest) =
      ((224 + q - 224) * 4096 + (128 + m - 128) * 64 + (128 + r - 128)) # utf8_scalars rest"
    by (subst utf8_scalars.simps(2)) (simp only: lead second third if_True if_False list.case simp_thms)
  with bytes c show ?thesis by simp
qed

lemma decode4:
  assumes "65536 \<le> c" "c < 1114112"
  shows "utf8_scalars (utf8_bytes c @ rest) = c # utf8_scalars rest"
proof -
  define q where "q = c div 262144"
  define l where "l = c div 4096 mod 64"
  define m where "m = c div 64 mod 64"
  define r where "r = c mod 64"
  have c: "c = q * 262144 + l * 4096 + m * 64 + r"
    unfolding q_def l_def m_def r_def by (rule split4)
  have r: "r < 64" by (simp add: r_def)
  have m: "m < 64" by (simp add: m_def)
  have l: "l < 64" by (simp add: l_def)
  have q: "q < 5" using assms(2) by (simp add: q_def)
  have lo: "q = 0 \<Longrightarrow> 16 \<le> l" using assms(1) c r m by arith
  have hi: "q = 4 \<Longrightarrow> l < 16" using assms(2) c by arith
  have bytes: "utf8_bytes c = [240 + q, 128 + l, 128 + m, 128 + r]"
    using assms by (simp add: utf8_bytes.simps q_def l_def m_def r_def)
  have lead: "\<not> 240 + q < 128" "\<not> (194 \<le> 240 + q \<and> 240 + q \<le> 223)"
      "\<not> (224 \<le> 240 + q \<and> 240 + q \<le> 239)" "240 \<le> 240 + q \<and> 240 + q \<le> 244"
    using q by simp_all
  have second: "continuation (if 240 + q = 240 then 144 else 128)
      (if 240 + q = 244 then 143 else 191) (128 + l)"
    using lo hi l by (auto simp: continuation_def)
  have third: "continuation 128 191 (128 + m)" "continuation 128 191 (128 + r)"
    using m r by (simp_all add: continuation_def)
  have "utf8_scalars ((240 + q) # (128 + l) # (128 + m) # (128 + r) # rest) =
      ((240 + q - 240) * 262144 + (128 + l - 128) * 4096 + (128 + m - 128) * 64
        + (128 + r - 128)) # utf8_scalars rest"
    by (subst utf8_scalars.simps(2)) (simp only: lead second third if_True if_False list.case simp_thms)
  with bytes c show ?thesis by simp
qed

lemma decode_scalar:
  "scalar c \<Longrightarrow> utf8_scalars (utf8_bytes c @ rest) = c # utf8_scalars rest"
  using decode1 [of c rest] decode2 [of c rest] decode3 [of c rest] decode4 [of c rest]
  unfolding scalar_def by linarith

lemma decode_scalars:
  "\<forall>c \<in> set cs. scalar c \<Longrightarrow> utf8_scalars (concat (map utf8_bytes cs)) = cs"
  by (induction cs) (simp_all add: decode_scalar)


lemma pair_scalar:
  assumes "isHighSurrogate u" "isLowSurrogate l"
  shows "scalar (65536 + (u - 55296) * 1024 + (l - 56320))"
    and "utf16_units (65536 + (u - 55296) * 1024 + (l - 56320)) = [u, l]"
proof -
  define a where "a = u - 55296"
  define b where "b = l - 56320"
  have a: "a < 1024" "u = 55296 + a" using assms(1) unfolding isHighSurrogate_def a_def by arith+
  have b: "b < 1024" "l = 56320 + b" using assms(2) unfolding isLowSurrogate_def b_def by arith+
  have "a * 1024 + b < 1048576" using a(1) b(1) by arith
  then show "scalar (65536 + (u - 55296) * 1024 + (l - 56320))"
    unfolding a_def [symmetric] b_def [symmetric] by (simp add: scalar_def)
  have "(a * 1024 + b) div 1024 = a" "(a * 1024 + b) mod 1024 = b"
    using b(1) by simp_all
  then show "utf16_units (65536 + (u - 55296) * 1024 + (l - 56320)) = [u, l]"
    unfolding a_def [symmetric] b_def [symmetric] using a(2) b(2)
    by (simp add: add.assoc utf16_units.simps)
qed

lemma plain_unit_scalar:
  assumes "u < 65536" "\<not> isHighSurrogate u" "\<not> isLowSurrogate u"
  shows "scalar u" and "utf16_units u = [u]"
  using assms by (auto simp: scalar_def isHighSurrogate_def isLowSurrogate_def utf16_units.simps)

lemma utf16_roundtrip:
  "wellformed us \<Longrightarrow> \<forall>u \<in> set us. u < 65536 \<Longrightarrow>
   (\<forall>c \<in> set (utf16_scalars us). scalar c) \<and> concat (map utf16_units (utf16_scalars us)) = us"
proof (induction us rule: utf16_scalars.induct)
  case 1
  then show ?case by simp
next
  case (2 u)
  then show ?case using plain_unit_scalar [of u] by simp
next
  case (3 u l us)
  show ?case
  proof (cases "isHighSurrogate u")
    case True
    with "3.prems" have l: "isLowSurrogate l" and wf: "wellformed us" by simp_all
    from "3.IH"(1) True l wf "3.prems"(2)
    have "(\<forall>c \<in> set (utf16_scalars us). scalar c) \<and>
        concat (map utf16_units (utf16_scalars us)) = us" by simp
    with True l pair_scalar [OF True l] show ?thesis by simp
  next
    case False
    with "3.prems" have nl: "\<not> isLowSurrogate u" and wf: "wellformed (l # us)" by simp_all
    from "3.IH"(3) False nl wf "3.prems"(2)
    have "(\<forall>c \<in> set (utf16_scalars (l # us)). scalar c) \<and>
        concat (map utf16_units (utf16_scalars (l # us))) = l # us" by simp
    with False nl plain_unit_scalar [of u] "3.prems"(2) show ?thesis by simp
  qed
qed

lemma scalar_bytes_small: "scalar c \<Longrightarrow> \<forall>b \<in> set (utf8_bytes c). b < 256"
proof -
  assume "scalar c"
  then have c: "c < 1114112" by (simp add: scalar_def)
  have "c div 64 < 32" if "c < 2048" using that by simp
  moreover have "c div 4096 < 16" if "c < 65536" using that by simp
  moreover have "c div 262144 < 5" using c by simp
  moreover have "c div 4096 mod 64 < 64" "c div 64 mod 64 < 64" "c mod 64 < 64" by simp_all
  ultimately show ?thesis
    by (auto simp add: utf8_bytes.simps)
qed

lemma bytes_as_chars:
  "\<forall>b \<in> set bs. b < 256 \<Longrightarrow> map of_char (map char_of bs) = (bs :: nat list)"
  by (induction bs) simp_all

lemma utf8_roundtrip:
  assumes "isWellFormed d"
  shows "utf8_decode (utf8_encode d) = d"
proof -
  let ?us = "map unat d"
  have "unat u < 65536" for u :: "16 word"
    using unsigned_less [of u] by simp
  then have small: "\<forall>u \<in> set ?us. u < 65536" by auto
  from assms have wf: "wellformed ?us" by (simp add: isWellFormed_def)
  from utf16_roundtrip [OF wf small]
  have sc: "\<forall>c \<in> set (utf16_scalars ?us). scalar c"
    and units: "concat (map utf16_units (utf16_scalars ?us)) = ?us" by simp_all
  let ?bs = "concat (map utf8_bytes (utf16_scalars ?us))"
  have "\<forall>b \<in> set ?bs. b < 256" using sc scalar_bytes_small by auto
  then have "map of_char (map char_of ?bs) = ?bs" by (rule bytes_as_chars)
  then have "utf8_scalars (map of_char (utf8_encode d)) = utf16_scalars ?us"
    using decode_scalars [OF sc] by (simp add: utf8_encode_def)
  then have "utf8_decode (utf8_encode d) = map of_nat ?us"
    using units by (simp add: utf8_decode_def)
  then show ?thesis by (simp add: comp_def)
qed

lemma lone_surrogate_replaced: "utf8_decode (utf8_encode [0xD800]) = [0xFFFD]"
  by (simp add: utf8_decode_def utf8_encode_def isHighSurrogate_def isLowSurrogate_def
      utf8_bytes.simps utf8_scalars.simps(2) continuation_def utf16_units.simps)

text \<open>A text of characters below 128 is its own encoding, and is well formed.\<close>

lemma ascii_scalars: "list_all (\<lambda>b. b < 128) bs \<Longrightarrow> utf8_scalars bs = bs"
  by (induction bs) (simp_all add: utf8_scalars.simps(2))

lemma ascii_units: "list_all (\<lambda>b. b < 128) bs \<Longrightarrow> concat (map utf16_units bs) = bs"
  by (induction bs) (simp_all add: utf16_units.simps)

lemma utf8_decode_js:
  assumes "list_all (\<lambda>c. of_char c < (128 :: nat)) str"
  shows "utf8_decode str = js str"
proof -
  let ?bs = "map of_char str :: nat list"
  from assms have a: "list_all (\<lambda>b. b < 128) ?bs"
    by (simp add: list_all_iff)
  have "utf8_decode str = map of_nat (concat (map utf16_units (utf8_scalars ?bs)))"
    by (simp only: utf8_decode_def)
  also have "\<dots> = map of_nat ?bs"
    by (simp only: ascii_scalars [OF a] ascii_units [OF a])
  also have "\<dots> = js str"
    by (simp add: js_def)
  finally show ?thesis .
qed

lemma wellformed_plain:
  "list_all (\<lambda>u. \<not> isHighSurrogate u \<and> \<not> isLowSurrogate u) us \<Longrightarrow> wellformed us"
  by (induction us rule: wellformed.induct) simp_all

lemma isWellFormed_js: "isWellFormed (js str)"
proof -
  have small: "(of_char c :: nat) < 256" for c :: char
    by simp
  have u: "unat (of_nat (of_char c) :: 16 word) = of_char c" for c :: char
  proof -
    have "(256 :: nat) < 2 ^ 16" by simp
    with small [of c] have "(of_char c :: nat) < 2 ^ 16" by (rule less_trans)
    then show ?thesis by (simp add: unat_of_nat)
  qed
  have "\<not> isHighSurrogate (of_char c) \<and> \<not> isLowSurrogate (of_char c)" for c :: char
    using small [of c] unfolding isHighSurrogate_def isLowSurrogate_def by arith
  then have "list_all (\<lambda>u. \<not> isHighSurrogate u \<and> \<not> isLowSurrogate u) (map unat (js str))"
    by (simp add: js_def list_all_iff u)
  then show ?thesis
    unfolding isWellFormed_def by (rule wellformed_plain)
qed

section \<open>The facade: one-shot override\<close>

lemma Filesystem_call_eq:
  "Filesystem_call fs c =
     (driver_call (case tempDriver fs of Some t \<Rightarrow> t | None \<Rightarrow> driver fs) c,
      fs\<lparr>tempDriver := None\<rparr>)"
  by (cases c)
    (simp_all add: Filesystem_resolveDriver_def Filesystem_read_def Filesystem_write_def
      Filesystem_exists_def Filesystem_isDirectory_def Filesystem_isFile_def
      Filesystem_isSymbolicLink_def Filesystem_delete_def Filesystem_append_def
      Filesystem_chmod_def Filesystem_copy_def Filesystem_createDir_def
      Filesystem_readDir_def Filesystem_rename_def)

lemma Filesystem_calls_default:
  "Filesystem_calls (fs\<lparr>tempDriver := None\<rparr>) cs =
     (map (driver_call (driver fs)) cs, fs\<lparr>tempDriver := None\<rparr>)"
  by (induction cs) (simp_all add: Filesystem_call_eq)

text \<open>
  Claim C2. On a facade whose default driver is \<open>A\<close>, freshly constructed or in any
  later state \<open>fs\<close>, the call after \<^verbatim>\<open>in(B)\<close> is the call on \<open>B\<close>, whatever promise
  \<open>B\<close> returns for it; with that call the override is gone, and every later call made
  without a new \<^verbatim>\<open>in\<close> is the call on the default driver.
\<close>

theorem override_is_one_shot:
  "Filesystem_calls (Filesystem_in (Filesystem_constructor A) B) (c # cs) =
     (driver_call B c # map (driver_call A) cs, Filesystem_constructor A)
   \<and> Filesystem_calls (Filesystem_in fs B) (c # cs) =
     (driver_call B c # map (driver_call (driver fs)) cs, fs\<lparr>tempDriver := None\<rparr>)
   \<and> tempDriver (snd (Filesystem_call (Filesystem_in fs B) c)) = None"
proof -
  have fresh: "Filesystem_calls (Filesystem_in (Filesystem_constructor A) B) (c # cs) =
      (driver_call B c # map (driver_call A) cs, Filesystem_constructor A)"
    using Filesystem_calls_default [of "Filesystem_constructor A" cs]
    by (simp add: Filesystem_call_eq Filesystem_in_def Filesystem_constructor_def)
  have later: "Filesystem_calls (Filesystem_in fs B) (c # cs) =
      (driver_call B c # map (driver_call (driver fs)) cs, fs\<lparr>tempDriver := None\<rparr>)"
    using Filesystem_calls_default [of fs cs]
    by (simp add: Filesystem_call_eq Filesystem_in_def)
  have cleared: "tempDriver (snd (Filesystem_call (Filesystem_in fs B) c)) = None"
    by (simp add: Filesystem_call_eq)
  from fresh later cleared show ?thesis by blast
qed

text \<open>
  Claim C5. Two calls of \<^verbatim>\<open>in\<close> with no operation between them leave one override,
  the second: the next call is the call on \<open>B2\<close>, the one after it and all later ones
  are calls on the default driver. \<open>B1\<close> is never used.
\<close>

theorem second_override_replaces_first:
  "Filesystem_in (Filesystem_in fs B1) B2 = Filesystem_in fs B2
   \<and> Filesystem_calls (Filesystem_in (Filesystem_in fs B1) B2) (c1 # c2 # cs) =
     (driver_call B2 c1 # driver_call (driver fs) c2 # map (driver_call (driver fs)) cs,
      fs\<lparr>tempDriver := None\<rparr>)"
proof -
  have same: "Filesystem_in (Filesystem_in fs B1) B2 = Filesystem_in fs B2"
    by (simp add: Filesystem_in_def)
  have run: "Filesystem_calls (Filesystem_in (Filesystem_in fs B1) B2) (c1 # c2 # cs) =
      (driver_call B2 c1 # driver_call (driver fs) c2 # map (driver_call (driver fs)) cs,
       fs\<lparr>tempDriver := None\<rparr>)"
    using Filesystem_calls_default [of fs cs]
    by (simp add: Filesystem_call_eq Filesystem_in_def)
  from same run show ?thesis by blast
qed

section \<open>The exported error classes\<close>

text \<open>
  Claim C3. The entry point requires \<^verbatim>\<open>invalid-path.js\<close> for the name \<^verbatim>\<open>FileExists\<close>,
  so the exported \<^verbatim>\<open>FileExists\<close> is the class \<^verbatim>\<open>InvalidPath\<close> and not the class the
  driver throws when a target exists: the error of \<^verbatim>\<open>createDir\<close> on the existing
  \<^verbatim>\<open>docs\<close>, of \<^verbatim>\<open>copy\<close> without overwriting onto it and of \<^verbatim>\<open>rename\<close> onto it is no
  instance of the exported \<^verbatim>\<open>FileExists\<close>. The claim fails on the code.
\<close>

theorem exported_FileExists_is_InvalidPath:
  "FileExists index_exports = InvalidPath index_exports
   \<and> FileExists index_exports = Local_InvalidPath
   \<and> FileExists index_exports \<noteq> Local_FileExists
   \<and> FileDoesntExist index_exports = Local_FileDoesntExist
   \<and> fst (Local_createDir example_fs ''docs'' None None) = Inl (Thrown Local_FileExists)
   \<and> fst (Local_copy example_fs ''notes.txt'' ''docs'' (Some False)) = Inl (Thrown Local_FileExists)
   \<and> fst (Local_rename example_fs ''notes.txt'' ''docs'') = Inl (Thrown Local_FileExists)
   \<and> \<not> instanceof (Thrown Local_FileExists) (FileExists index_exports)"
  by code_simp

section \<open>The local driver on the native file system\<close>

lemma maxSymlinks_Suc: "maxSymlinks = Suc 39"
  by (simp add: maxSymlinks_def)

lemma follow_Suc_plain:
  "lookup s k = Some e \<Longrightarrow> plain e \<Longrightarrow> follow (Suc n) s k = Some k"
  by (cases "inode e") (simp_all add: plain_def)

lemma follow_plain:
  "lookup s k = Some e \<Longrightarrow> plain e \<Longrightarrow> follow maxSymlinks s k = Some k"
  unfolding maxSymlinks_Suc by (rule follow_Suc_plain)



lemma native_stat_plain:
  "lookup s (key s p) = Some e \<Longrightarrow> plain e \<Longrightarrow> native_stat s (Local_resolve s p) = Inr (key s p, e)"
  by (simp add: native_stat_def key_Local_resolve follow_plain)


lemma native_lstat_resolved:
  "native_lstat s (Local_resolve s p) = native_lstat s p"
  by (simp add: native_lstat_def key_Local_resolve)

lemma native_stat_resolved:
  "native_stat s (Local_resolve s p) = native_stat s p"
  by (simp add: native_stat_def key_Local_resolve)

text \<open>
  \<^verbatim>\<open>exists\<close>: rejected when the runtime refuses the path, and else fulfilled with what
  \<^verbatim>\<open>fs.access\<close> found.
\<close>

lemma Local_exists_eq:
  "Local_exists s p =
     (if validPath (Local_resolve s p)
      then Inr (case native_stat s p of Inl err \<Rightarrow> False | Inr (k, e) \<Rightarrow> readable e)
      else Inl ArgumentError)"
  by (simp add: Local_exists_def native_call_def native_access_def native_stat_resolved settled_def
      split: sum.splits prod.splits)

lemma Local_exists_valid: "Local_exists s p = Inr b \<Longrightarrow> validPath (Local_resolve s p)"
  by (simp add: Local_exists_eq split: if_splits)



lemma Local_exists_plain:
  "validPath (Local_resolve s p) \<Longrightarrow> lookup s (key s p) = Some e \<Longrightarrow> plain e \<Longrightarrow>
   Local_exists s p = Inr (readable e)"
  using native_stat_plain [of s p e]
  by (simp add: Local_exists_eq native_stat_resolved)


text \<open>What the three kind checks say, and what follows from their answers.\<close>

lemma Local_isFile_eq:
  assumes "Local_exists s p = Inr True"
  shows "Local_isFile s p =
     (case lookup s (key s p) of
        None \<Rightarrow> Inl (Native ENOENT)
      | Some e \<Rightarrow> Inr (stats_isFile e))"
  using assms Local_exists_valid [OF assms]
  by (simp add: Local_isFile_def native_call_def native_lstat_def key_Local_resolve
      settled_def split: option.splits)

lemma Local_isDirectory_eq:
  assumes "Local_exists s p = Inr True"
  shows "Local_isDirectory s p =
     (case lookup s (key s p) of
        None \<Rightarrow> Inl (Native ENOENT)
      | Some e \<Rightarrow> Inr (stats_isDirectory e))"
  using assms Local_exists_valid [OF assms]
  by (simp add: Local_isDirectory_def native_call_def native_lstat_def key_Local_resolve
      settled_def split: option.splits)

lemma Local_isSymbolicLink_eq:
  assumes "Local_exists s p = Inr True"
  shows "Local_isSymbolicLink s p =
     (case lookup s (key s p) of
        None \<Rightarrow> Inl (Native ENOENT)
      | Some e \<Rightarrow> Inr (stats_isSymbolicLink e))"
  using assms Local_exists_valid [OF assms]
  by (simp add: Local_isSymbolicLink_def native_call_def native_lstat_def key_Local_resolve
      settled_def split: option.splits)

lemma Local_isFile_missing:
  "Local_exists s p = Inr False \<Longrightarrow> Local_isFile s p = Inl (Thrown Local_FileDoesntExist)"
  by (simp add: Local_isFile_def)

lemma Local_isFile_exists: "Local_isFile s p = Inr b \<Longrightarrow> Local_exists s p = Inr True"
  by (auto simp add: Local_isFile_def split: sum.splits bool.splits)

lemma Local_isDirectory_exists: "Local_isDirectory s p = Inr b \<Longrightarrow> Local_exists s p = Inr True"
  by (auto simp add: Local_isDirectory_def split: sum.splits bool.splits)

lemma isFile_TrueD:
  assumes "Local_isFile s p = Inr True"
  shows "\<exists>e c. lookup s (key s p) = Some e \<and> inode e = RegularFile c \<and> readable e"
proof -
  from assms have ex: "Local_exists s p = Inr True"
    by (rule Local_isFile_exists)
  with assms obtain e where e: "lookup s (key s p) = Some e" "stats_isFile e"
    by (auto simp add: Local_isFile_eq split: option.splits)
  then obtain c where c: "inode e = RegularFile c"
    by (cases "inode e") (simp_all add: stats_isFile_def)
  then have "plain e" by (simp add: plain_def)
  with e ex Local_exists_valid [OF ex] have "readable e" by (simp add: Local_exists_plain)
  with e c show ?thesis by blast
qed

lemma isDirectory_TrueD:
  assumes "Local_isDirectory s p = Inr True"
  shows "\<exists>e. lookup s (key s p) = Some e \<and> inode e = Directory \<and> readable e"
proof -
  from assms have ex: "Local_exists s p = Inr True"
    by (rule Local_isDirectory_exists)
  with assms obtain e where e: "lookup s (key s p) = Some e" "stats_isDirectory e"
    by (auto simp add: Local_isDirectory_eq split: option.splits)
  then have c: "inode e = Directory"
    by (cases "inode e") (simp_all add: stats_isDirectory_def)
  then have "plain e" by (simp add: plain_def)
  with e ex Local_exists_valid [OF ex] have "readable e" by (simp add: Local_exists_plain)
  with e c show ?thesis by blast
qed

text \<open>\<^verbatim>\<open>write\<close> on a path that \<^verbatim>\<open>exists\<close> does not find, and on a directory.\<close>

lemma write_missing:
  "Local_exists s p = Inr False \<Longrightarrow> Local_write s p d = (Inl (Thrown Local_FileDoesntExist), s)"
  by (simp add: Local_write_def Local_isFile_missing)

lemma write_directory:
  assumes dir: "Local_isDirectory s p = Inr True"
  shows "Local_write s p d = (Inl (Thrown Local_InvalidPath), s)"
proof -
  from dir obtain e where e: "lookup s (key s p) = Some e" "inode e = Directory"
    using isDirectory_TrueD by blast
  from dir have "Local_exists s p = Inr True"
    by (rule Local_isDirectory_exists)
  with e have "Local_isFile s p = Inr False"
    by (simp add: Local_isFile_eq stats_isFile_def)
  then show ?thesis
    by (simp add: Local_write_def)
qed

lemma error_classes_differ:
  "Local_FileDoesntExist \<noteq> Local_InvalidPath"
  by code_simp

text \<open>
  Claim C1, as the code has it. \<^verbatim>\<open>write\<close> asks \<^verbatim>\<open>isFile\<close> first, and \<^verbatim>\<open>isFile\<close>
  throws \<^verbatim>\<open>FileDoesntExist\<close> for a path that \<^verbatim>\<open>exists\<close> does not find. So on a path
  that does not exist (or is not readable) \<^verbatim>\<open>write\<close> fails with \<^verbatim>\<open>FileDoesntExist\<close>;
  on an existing directory it fails with \<^verbatim>\<open>InvalidPath\<close>. In both cases the disk is
  left as it was.
\<close>

theorem write_missing_or_directory:
  "(Local_exists s p = Inr False \<longrightarrow> Local_write s p d = (Inl (Thrown Local_FileDoesntExist), s))
   \<and> (Local_isDirectory s p = Inr True \<longrightarrow> Local_write s p d = (Inl (Thrown Local_InvalidPath), s))"
  using write_missing [of s p d] write_directory [of s p d] by blast

theorem write_missing_or_directory_witness:
  "Local_exists example_fs ''missing.txt'' = Inr False
   \<and> Local_write example_fs ''missing.txt'' (js ''data'') =
       (Inl (Thrown Local_FileDoesntExist), example_fs)
   \<and> Local_isDirectory example_fs ''docs'' = Inr True
   \<and> Local_write example_fs ''docs'' (js ''data'') = (Inl (Thrown Local_InvalidPath), example_fs)"
proof -
  have missing: "Local_exists example_fs ''missing.txt'' = Inr False" by code_simp
  have dir: "Local_isDirectory example_fs ''docs'' = Inr True" by code_simp
  from missing dir
    write_missing_or_directory [of example_fs "''missing.txt''" "js ''data''"]
    write_missing_or_directory [of example_fs "''docs''" "js ''data''"]
  show ?thesis by blast
qed

text \<open>
  The claim as stated fails: \<^verbatim>\<open>missing.txt\<close> does not exist on the example disk, and
  the error of \<^verbatim>\<open>write\<close> there is not an \<^verbatim>\<open>InvalidPath\<close>.
\<close>

theorem write_missing_counterexample:
  "\<not> (Local_exists example_fs ''missing.txt'' = Inr False \<longrightarrow>
      fst (Local_write example_fs ''missing.txt'' (js ''data'')) = Inl (Thrown Local_InvalidPath))"
proof -
  have missing: "Local_exists example_fs ''missing.txt'' = Inr False" by code_simp
  from write_missing [OF missing, of "js ''data''"] missing error_classes_differ
  show ?thesis by simp
qed




text \<open>
  Claim C10. For a path that exists (for \<^verbatim>\<open>exists\<close>, which follows the link) and whose
  own entry is a symbolic link, with any target \<open>t\<close>: \<^verbatim>\<open>isSymbolicLink\<close> is true,
  \<^verbatim>\<open>isFile\<close> and \<^verbatim>\<open>isDirectory\<close> are false. All three ask \<^verbatim>\<open>lstat\<close>, which does not
  follow the link.
\<close>

theorem link_is_neither_file_nor_directory:
  assumes "Local_exists s p = Inr True"
    and "native_lstat s p = Inr st"
    and "inode st = SymbolicLink t"
  shows "Local_isSymbolicLink s p = Inr True
     \<and> Local_isFile s p = Inr False
     \<and> Local_isDirectory s p = Inr False"
proof -
  from assms(2) have "lookup s (key s p) = Some st"
    by (simp add: native_lstat_def split: option.splits)
  with assms(1,3) show ?thesis
    by (simp add: Local_isSymbolicLink_eq Local_isFile_eq Local_isDirectory_eq
        stats_isSymbolicLink_def stats_isFile_def stats_isDirectory_def)
qed

lemma read_link:
  assumes "Local_exists s p = Inr True" and "Local_isFile s p = Inr False"
    and "Local_isSymbolicLink s p = Inr True"
    and "native_readBytes s (Local_resolve s p) = Inr c"
  shows "Local_read s p = Inr (utf8_decode c)"
  using assms Local_exists_valid [OF assms(1)]
  by (simp add: Local_read_def native_call_def promisify_def native_readFile_def)

text \<open>A link to a regular file and a link to a directory, on the example disk.\<close>

theorem link_is_neither_file_nor_directory_witness:
  "Local_read example_fs ''to-file'' = Inr (js ''hello'')
   \<and> Local_isSymbolicLink example_fs ''to-file'' = Inr True
   \<and> Local_isFile example_fs ''to-file'' = Inr False
   \<and> Local_isDirectory example_fs ''to-file'' = Inr False
   \<and> Local_readDir example_fs ''to-dir'' = Inr []
   \<and> Local_isSymbolicLink example_fs ''to-dir'' = Inr True
   \<and> Local_isFile example_fs ''to-dir'' = Inr False
   \<and> Local_isDirectory example_fs ''to-dir'' = Inr False"
proof -
  have f1: "Local_exists example_fs ''to-file'' = Inr True" by code_simp
  have f2: "native_lstat example_fs ''to-file'' = Inr (link_entry ''notes.txt'')" by code_simp
  have f3: "inode (link_entry ''notes.txt'') = SymbolicLink ''notes.txt''" by code_simp
  have d1: "Local_exists example_fs ''to-dir'' = Inr True" by code_simp
  have d2: "native_lstat example_fs ''to-dir'' = Inr (link_entry ''/home/u/docs'')" by code_simp
  have d3: "inode (link_entry ''/home/u/docs'') = SymbolicLink ''/home/u/docs''" by code_simp
  note f = link_is_neither_file_nor_directory [OF f1 f2 f3]
  note d = link_is_neither_file_nor_directory [OF d1 d2 d3]
  have bytes: "native_readBytes example_fs (Local_resolve example_fs ''to-file'') = Inr ''hello''"
    by code_simp
  have "Local_read example_fs ''to-file'' = Inr (utf8_decode ''hello'')"
    using f1 f bytes by (intro read_link) simp_all
  then have r1: "Local_read example_fs ''to-file'' = Inr (js ''hello'')"
    by (simp add: utf8_decode_js)
  have r2: "Local_readDir example_fs ''to-dir'' = Inr []" by code_simp
  from r1 r2 f d show ?thesis by blast
qed

lemma key_put [simp]: "key (put s k e) p = key s p"
  by (simp add: key_def put_def process_cwd_def)

lemma key_remove [simp]: "key (remove s k) p = key s p"
  by (simp add: key_def remove_def process_cwd_def)

lemma Local_resolve_put [simp]: "Local_resolve (put s k e) p = Local_resolve s p"
  by (simp add: Local_resolve_def put_def process_cwd_def)

lemma Local_resolve_remove [simp]: "Local_resolve (remove s k) p = Local_resolve s p"
  by (simp add: Local_resolve_def remove_def process_cwd_def)

lemma lookup_put: "lookup (put s k e) k' = (if k' = k then Some e else lookup s k')"
  by (simp add: lookup_def put_def update_conv')


lemma children_keys:
  "map last (filter (\<lambda>k'. k' \<noteq> [] \<and> butlast k' = K) (removeAll k ks)) =
     (if k \<noteq> [] \<and> butlast k = K
      then removeAll (last k) (map last (filter (\<lambda>k'. k' \<noteq> [] \<and> butlast k' = K) ks))
      else map last (filter (\<lambda>k'. k' \<noteq> [] \<and> butlast k' = K) ks))"
proof (induction ks)
  case Nil
  then show ?case by simp
next
  case (Cons a ks)
  have eq: "a = k" if "a \<noteq> []" "k \<noteq> []" "butlast k = butlast a" "last k = last a"
    using that by (metis append_butlast_last_id)
  from Cons show ?case
    using eq by auto
qed

lemma children_remove:
  "children (remove s k) K =
     (if k \<noteq> [] \<and> butlast k = K then removeAll (last k) (children s K) else children s K)"
  using children_keys [of K k "map fst (entries s)"]
  by (simp add: children_def remove_def delete_keys)

lemma children_remove_child: "children (remove s (K @ [x])) K = removeAll x (children s K)"
  by (simp add: children_remove)

lemma children_remove_other: "K' \<noteq> K \<Longrightarrow> children (remove s (K @ [x])) K' = children s K'"
  by (simp add: children_remove)









lemma createDir_issued_all:
  "validMode mode \<Longrightarrow> list_all validPath dirs \<Longrightarrow> createDir_issued dirs mode = dirs"
  by (simp add: createDir_issued_def list_all_iff)

lemma createDir_recursively:
  assumes "validMode (default_to 511 mode)" and "list_all validPath (createDir_reduce p)"
  shows "Local_createDir_finishing finish s p mode (Some True) =
     (Inr (Some True), snd (mkdir_each s (finish (createDir_reduce p)) (default_to 511 mode)))"
  using createDir_issued_all [OF assms]
  by (simp add: Local_createDir_finishing_def Let_def default_to_def settled_def
      split: prod.splits)



lemma default_mode_valid: "validMode (default_to 511 None)"
  by (simp add: validMode_def default_to_def)

lemma createDir_in_order:
  assumes "list_all validPath (createDir_reduce p)"
  shows "snd (Local_createDir s p None (Some True)) =
     snd (mkdir_each s (createDir_reduce p) (default_to 511 None))"
  by (simp add: Local_createDir_def createDir_recursively [OF default_mode_valid assms])





text \<open>
  Claim C4 fails on the code. The recursive branch of \<^verbatim>\<open>createDir\<close> hands the joined
  segments to \<^verbatim>\<open>fs.mkdir\<close> as they are, without \<^verbatim>\<open>_resolve\<close>. For \<^verbatim>\<open>/srv/data\<close> the
  calls get \<^verbatim>\<open>.\<close>, \<^verbatim>\<open>srv\<close> and \<^verbatim>\<open>srv/data\<close>, none of them absolute: the directories
  are made below the working directory \<^verbatim>\<open>/home/u\<close> and not at \<^verbatim>\<open>/srv/data\<close>. For the
  relative \<^verbatim>\<open>new/deep\<close> the calls get \<^verbatim>\<open>new\<close> and \<^verbatim>\<open>new/deep\<close>, not the resolved
  \<^verbatim>\<open>/home/u/new\<close> and \<^verbatim>\<open>/home/u/new/deep\<close>.
\<close>

theorem createDir_recursive_unresolved:
  "createDir_dirs [] (split_sep (join [dirname ''/srv/data'', basename ''/srv/data''])) =
     [''.'', ''srv'', ''srv/data'']
   \<and> Local_resolve example_fs ''/srv/data'' = ''/srv/data''
   \<and> Local_resolve example_fs ''srv/data'' = ''/home/u/srv/data''
   \<and> Local_exists (snd (Local_createDir example_fs ''/srv/data'' None (Some True))) ''/srv'' = Inr False
   \<and> Local_isDirectory (snd (Local_createDir example_fs ''/srv/data'' None (Some True)))
       ''/home/u/srv/data'' = Inr True
   \<and> createDir_dirs [] (split_sep (join [dirname ''new/deep'', basename ''new/deep''])) =
     [''new'', ''new/deep'']
   \<and> Local_resolve example_fs ''new'' = ''/home/u/new''
   \<and> Local_resolve example_fs ''new/deep'' = ''/home/u/new/deep''"
proof -
  let ?s1 = "snd (mkdir_each example_fs (createDir_reduce ''/srv/data'') (default_to 511 None))"
  have v: "list_all validPath (createDir_reduce ''/srv/data'')" by code_simp
  have s1: "snd (Local_createDir example_fs ''/srv/data'' None (Some True)) = ?s1"
    using v by (rule createDir_in_order)
  have a: "createDir_dirs [] (split_sep (join [dirname ''/srv/data'', basename ''/srv/data''])) =
      [''.'', ''srv'', ''srv/data'']" by code_simp
  have b: "Local_resolve example_fs ''/srv/data'' = ''/srv/data''" by code_simp
  have c: "Local_resolve example_fs ''srv/data'' = ''/home/u/srv/data''" by code_simp
  have d: "Local_exists ?s1 ''/srv'' = Inr False" by code_simp
  have e: "Local_isDirectory ?s1 ''/home/u/srv/data'' = Inr True" by code_simp
  have f: "createDir_dirs [] (split_sep (join [dirname ''new/deep'', basename ''new/deep''])) =
      [''new'', ''new/deep'']" by code_simp
  have g: "Local_resolve example_fs ''new'' = ''/home/u/new''" by code_simp
  have h: "Local_resolve example_fs ''new/deep'' = ''/home/u/new/deep''" by code_simp
  from a b c d e f g h show ?thesis
    unfolding s1 by (intro conjI)
qed

text \<open>The driver on a regular file, on a directory, and on a missing path.\<close>

lemma on_file:
  assumes "validPath (Local_resolve s p)"
    and "lookup s (key s p) = Some e" and "inode e = RegularFile c" and "readable e"
  shows "Local_exists s p = Inr True" and "Local_isFile s p = Inr True"
    and "Local_read s p = Inr (utf8_decode c)"
    and "Local_delete s p = (Inr (), remove s (key s p))"
    and "writable e \<Longrightarrow>
         Local_write s p d = (Inr (), put s (key s p) (e\<lparr>inode := RegularFile (utf8_encode d)\<rparr>))"
    and "\<not> writable e \<Longrightarrow> Local_write s p d = (Inl (Native EACCES), s)"
proof -
  from assms have pl: "plain e" by (simp add: plain_def)
  with assms show ex: "Local_exists s p = Inr True" by (simp add: Local_exists_plain)
  with assms show isf: "Local_isFile s p = Inr True"
    by (simp add: Local_isFile_eq stats_isFile_def)
  from assms pl have stat: "native_stat s (Local_resolve s p) = Inr (key s p, e)"
    by (simp add: native_stat_plain)
  with assms ex isf show "Local_read s p = Inr (utf8_decode c)"
    by (simp add: Local_read_def native_readFile_def native_readBytes_def promisify_def
        native_call_def)
  from assms ex isf show "Local_delete s p = (Inr (), remove s (key s p))"
    by (simp add: Local_delete_def native_unlink_def key_Local_resolve promisify_def
        native_call_on_def)
  show "Local_write s p d = (Inr (), put s (key s p) (e\<lparr>inode := RegularFile (utf8_encode d)\<rparr>))"
    if "writable e"
    using that assms pl isf
    by (simp add: Local_write_def native_writeFile_def native_store_def key_Local_resolve
        follow_plain promisify_def native_call_on_def)
  show "Local_write s p d = (Inl (Native EACCES), s)" if "\<not> writable e"
    using that assms pl isf
    by (simp add: Local_write_def native_writeFile_def native_store_def key_Local_resolve
        follow_plain promisify_def native_call_on_def)
qed


text \<open>
  Claim C8, as the code has it. Let \<open>p\<close> be a regular file for the driver (\<^verbatim>\<open>isFile\<close> is
  fulfilled with true, so \<open>p\<close> exists and is readable) that the process may write, and
  let \<open>d\<close> be a well-formed string: one in which no surrogate stands alone. Then
  \<^verbatim>\<open>write(p, d)\<close> is fulfilled, and on the disk it leaves \<^verbatim>\<open>read(p)\<close> is fulfilled
  with \<open>d\<close>.
\<close>

theorem write_then_read:
  assumes "Local_isFile s p = Inr True"
    and "native_lstat s p = Inr st"
    and "writable st"
    and "isWellFormed d"
  shows "\<exists>s'. Local_write s p d = (Inr (), s') \<and> Local_read s' p = Inr d"
proof -
  from assms(1) obtain e c where
    e: "lookup s (key s p) = Some e" "inode e = RegularFile c" "readable e"
    using isFile_TrueD by blast
  from assms(1) have v: "validPath (Local_resolve s p)"
    using Local_isFile_exists Local_exists_valid by blast
  from assms(2) e(1) have "st = e" by (simp add: native_lstat_def)
  with assms(3) have w: "writable e" by simp
  let ?e' = "e\<lparr>inode := RegularFile (utf8_encode d)\<rparr>"
  let ?s' = "put s (key s p) ?e'"
  have wr: "Local_write s p d = (Inr (), ?s')"
    using v e w by (rule on_file)
  have "validPath (Local_resolve ?s' p)" using v by simp
  moreover have "lookup ?s' (key ?s' p) = Some ?e'" by (simp add: lookup_put)
  moreover have "inode ?e' = RegularFile (utf8_encode d)" by simp
  moreover have "readable ?e'" using e by simp
  ultimately have "Local_read ?s' p = Inr (utf8_decode (utf8_encode d))" by (rule on_file)
  with assms(4) have "Local_read ?s' p = Inr d" by (simp add: utf8_roundtrip)
  with wr show ?thesis by blast
qed

theorem write_then_read_witness:
  "Local_isFile example_fs ''notes.txt'' = Inr True
   \<and> native_lstat example_fs ''notes.txt'' = Inr (file_entry ''hello'')
   \<and> writable (file_entry ''hello'')
   \<and> isWellFormed (js ''good bye'')
   \<and> (\<exists>s'. Local_write example_fs ''notes.txt'' (js ''good bye'') = (Inr (), s')
         \<and> Local_read s' ''notes.txt'' = Inr (js ''good bye''))"
proof -
  have f: "Local_isFile example_fs ''notes.txt'' = Inr True" by code_simp
  have l: "native_lstat example_fs ''notes.txt'' = Inr (file_entry ''hello'')" by code_simp
  have w: "writable (file_entry ''hello'')" by (simp add: file_entry_def)
  have g: "isWellFormed (js ''good bye'')" by (simp add: isWellFormed_js)
  from f l w g write_then_read [OF f l w g] show ?thesis by blast
qed

text \<open>
  The claim as stated fails. \<^verbatim>\<open>notes.txt\<close> is a regular file on the example disk, and
  the string of the one code unit \<^verbatim>\<open>D800\<close>, a surrogate on its own, is written and
  read back as \<^verbatim>\<open>FFFD\<close>. And \<^verbatim>\<open>readonly.txt\<close> is a regular file that the process may
  not write: \<^verbatim>\<open>write\<close> is rejected there.
\<close>

theorem write_then_read_counterexample:
  "Local_isFile example_fs ''notes.txt'' = Inr True
   \<and> fst (Local_write example_fs ''notes.txt'' [0xD800]) = Inr ()
   \<and> Local_read (snd (Local_write example_fs ''notes.txt'' [0xD800])) ''notes.txt'' = Inr [0xFFFD]
   \<and> Local_isFile example_fs ''readonly.txt'' = Inr True
   \<and> fst (Local_write example_fs ''readonly.txt'' (js ''new'')) = Inl (Native EACCES)"
proof -
  let ?K = "key example_fs ''notes.txt''"
  let ?e = "file_entry ''hello''"
  let ?e' = "?e\<lparr>inode := RegularFile (utf8_encode [0xD800])\<rparr>"
  let ?s' = "put example_fs ?K ?e'"
  have f: "Local_isFile example_fs ''notes.txt'' = Inr True" by code_simp
  have v: "validPath (Local_resolve example_fs ''notes.txt'')" by code_simp
  have l: "lookup example_fs ?K = Some ?e" by code_simp
  have e: "inode ?e = RegularFile ''hello''" "readable ?e" "writable ?e"
    by (simp_all add: file_entry_def)
  have wr: "Local_write example_fs ''notes.txt'' [0xD800] = (Inr (), ?s')"
    using v l e by (rule on_file)
  have "validPath (Local_resolve ?s' ''notes.txt'')" using v by simp
  moreover have "lookup ?s' (key ?s' ''notes.txt'') = Some ?e'" by (simp add: lookup_put)
  moreover have "inode ?e' = RegularFile (utf8_encode [0xD800])" by simp
  moreover have "readable ?e'" using e by simp
  ultimately have "Local_read ?s' ''notes.txt'' = Inr (utf8_decode (utf8_encode [0xD800]))"
    by (rule on_file)
  then have rd: "Local_read ?s' ''notes.txt'' = Inr [0xFFFD]"
    by (simp only: lone_surrogate_replaced)
  have g: "Local_isFile example_fs ''readonly.txt'' = Inr True" by code_simp
  have v2: "validPath (Local_resolve example_fs ''readonly.txt'')" by code_simp
  have l2: "lookup example_fs (key example_fs ''readonly.txt'') =
      Some \<lparr>inode = RegularFile ''fixed'', readable = True, writable = False\<rparr>" by code_simp
  have "Local_write example_fs ''readonly.txt'' (js ''new'') = (Inl (Native EACCES), example_fs)"
    using v2 l2 by (rule on_file) simp_all
  with f wr rd g show ?thesis by simp
qed







end
